theory Spec2Isabelle
  imports Complex_Main
begin

section \<open>JavaScript numbers\<close>

text \<open>
  The map code computes with JavaScript numbers, which are IEEE 754 binary64 values. A
  number is a finite value, the negative zero, an infinity or NaN; \<open>Finite x\<close> stands
  for the double whose value is the real \<open>x\<close>, and \<open>Finite 0\<close> is the positive zero.
  Every arithmetic operation computes the exact real result and rounds it to the
  nearest double, a tie going to the even significand.
\<close>

datatype js_number = Finite real | NegZero | PosInf | NegInf | NaN

definition pow2 :: "int \<Rightarrow> real" where
  "pow2 k = (if 0 \<le> k then 2 ^ nat k else 1 / 2 ^ nat (- k))"

definition round_ties_even :: "real \<Rightarrow> int" where
  "round_ties_even q =
     (let n = \<lfloor>q\<rfloor>; r = q - of_int n
      in if r < 1 / 2 then n
         else if 1 / 2 < r then n + 1
         else if even n then n else n + 1)"

text \<open>
  The binade of a magnitude \<open>a\<close>: the largest exponent \<open>e\<close> between \<open>-1022\<close> and
  \<open>1024\<close> with \<open>2 ^ e \<le> a\<close>, and \<open>-1022\<close> for the subnormal magnitudes below. It is
  found by trying the exponents from the top.
\<close>

fun binade_from :: "real \<Rightarrow> nat \<Rightarrow> int" where
  "binade_from a 0 = - 1022"
| "binade_from a (Suc n) =
     (if pow2 (int (Suc n) - 1022) \<le> a then int (Suc n) - 1022 else binade_from a n)"

definition binade :: "real \<Rightarrow> int" where
  "binade a = binade_from a 2046"

definition max_double :: real where
  "max_double = (2 ^ 53 - 1) * 2 ^ 971"

text \<open>
  Rounding a real to a double: the spacing of the doubles in the binade of \<open>x\<close> is
  \<open>2 ^ (e - 52)\<close> (\<open>2 ^ - 1074\<close> among the subnormals); a result beyond the largest
  double is an infinity, and a negative result that rounds to zero is the negative
  zero.
\<close>

definition fl :: "real \<Rightarrow> js_number" where
  "fl x =
     (let u = pow2 (binade \<bar>x\<bar> - 52);
          y = of_int (round_ties_even (x / u)) * u
      in if max_double < \<bar>y\<bar> then (if 0 < x then PosInf else NegInf)
         else if y = 0 then (if x < 0 then NegZero else Finite 0)
         else Finite y)"

fun finite_value :: "js_number \<Rightarrow> real option" where
  "finite_value (Finite x) = Some x"
| "finite_value NegZero = Some 0"
| "finite_value _ = None"

fun sign_neg :: "js_number \<Rightarrow> bool" where
  "sign_neg (Finite x) = (x < 0)"
| "sign_neg NegZero = True"
| "sign_neg PosInf = False"
| "sign_neg NegInf = True"
| "sign_neg NaN = False"

definition signed_zero :: "bool \<Rightarrow> js_number" where
  "signed_zero neg = (if neg then NegZero else Finite 0)"

definition signed_inf :: "bool \<Rightarrow> js_number" where
  "signed_inf neg = (if neg then NegInf else PosInf)"

text \<open>
  The operators \<open>-x\<close>, \<open>x + y\<close>, \<open>x - y\<close>, \<open>x * y\<close>, \<open>x / y\<close> and \<open>x <= y\<close> on numbers, as
  ECMAScript defines them: NaN is contagious, opposite infinities add up to NaN, an
  exact zero sum is positive unless both summands are the negative zero, zero times
  infinity and zero by zero are NaN, a non-zero number by zero is an infinity, a
  comparison with NaN is false. No operation raises an error.
\<close>

fun js_neg :: "js_number \<Rightarrow> js_number" where
  "js_neg (Finite x) = (if x = 0 then NegZero else Finite (- x))"
| "js_neg NegZero = Finite 0"
| "js_neg PosInf = NegInf"
| "js_neg NegInf = PosInf"
| "js_neg NaN = NaN"

definition js_add :: "js_number \<Rightarrow> js_number \<Rightarrow> js_number" where
  "js_add a b =
     (if a = NaN \<or> b = NaN then NaN
      else case (finite_value a, finite_value b) of
        (Some x, Some y) \<Rightarrow>
          if x + y = 0 then signed_zero (a = NegZero \<and> b = NegZero) else fl (x + y)
      | (Some x, None) \<Rightarrow> b
      | (None, Some y) \<Rightarrow> a
      | (None, None) \<Rightarrow> if a = b then a else NaN)"

definition js_sub :: "js_number \<Rightarrow> js_number \<Rightarrow> js_number" where
  "js_sub a b = js_add a (js_neg b)"

definition js_mul :: "js_number \<Rightarrow> js_number \<Rightarrow> js_number" where
  "js_mul a b =
     (if a = NaN \<or> b = NaN then NaN
      else case (finite_value a, finite_value b) of
        (Some x, Some y) \<Rightarrow>
          if x * y = 0 then signed_zero (sign_neg a \<noteq> sign_neg b) else fl (x * y)
      | (Some x, None) \<Rightarrow> if x = 0 then NaN else signed_inf (sign_neg a \<noteq> sign_neg b)
      | (None, Some y) \<Rightarrow> if y = 0 then NaN else signed_inf (sign_neg a \<noteq> sign_neg b)
      | (None, None) \<Rightarrow> signed_inf (sign_neg a \<noteq> sign_neg b))"

definition js_div :: "js_number \<Rightarrow> js_number \<Rightarrow> js_number" where
  "js_div a b =
     (if a = NaN \<or> b = NaN then NaN
      else case (finite_value a, finite_value b) of
        (Some x, Some y) \<Rightarrow>
          if y = 0 then (if x = 0 then NaN else signed_inf (sign_neg a \<noteq> sign_neg b))
          else if x = 0 then signed_zero (sign_neg a \<noteq> sign_neg b)
          else fl (x / y)
      | (Some x, None) \<Rightarrow> signed_zero (sign_neg a \<noteq> sign_neg b)
      | (None, Some y) \<Rightarrow> signed_inf (sign_neg a \<noteq> sign_neg b)
      | (None, None) \<Rightarrow> NaN)"

definition js_le :: "js_number \<Rightarrow> js_number \<Rightarrow> bool" where
  "js_le a b =
     (if a = NaN \<or> b = NaN then False
      else case (finite_value a, finite_value b) of
        (Some x, Some y) \<Rightarrow> x \<le> y
      | (Some x, None) \<Rightarrow> b = PosInf
      | (None, Some y) \<Rightarrow> a = NegInf
      | (None, None) \<Rightarrow> a = NegInf \<or> b = PosInf)"

text \<open>
  \<open>Math.round\<close>: the nearest integer, a tie going up; the result for a negative
  number from \<open>-0.5\<close> on is the negative zero. \<open>Math.max\<close>: NaN when an argument is
  NaN, and the positive zero is the larger zero.
\<close>

fun Math_round :: "js_number \<Rightarrow> js_number" where
  "Math_round (Finite x) =
     (let n = \<lfloor>x + 1 / 2\<rfloor> in if n = 0 \<and> x < 0 then NegZero else Finite (of_int n))"
| "Math_round a = a"


section \<open>Colour interpolation of the county maps\<close>

text \<open>
  The deck.gl prototype page and the React component \<open>CountyMap.js\<close> carry the same
  colour scale and the same function \<open>interpolateColor\<close>. A colour is the array of its
  three channels.
\<close>

datatype js_error = TypeError

type_synonym color_stop = "js_number \<times> js_number list"

definition colorScale :: "color_stop list" where
  "colorScale =
     [(Finite 0, [Finite 44, Finite 123, Finite 182]),
      (Finite (1 / 2), [Finite 255, Finite 255, Finite 191]),
      (Finite 1, [Finite 215, Finite 25, Finite 28])]"

text \<open>
  Reading \<open>colorScale[i]\<close> and then a component of it: past the end of the array
  JavaScript yields \<open>undefined\<close>, and reading a component of that throws a TypeError.
  Reading a channel \<open>color[k]\<close> past the end of a colour yields \<open>undefined\<close> too, which
  arithmetic turns into NaN.
\<close>

definition stop_at :: "color_stop list \<Rightarrow> nat \<Rightarrow> js_error + color_stop" where
  "stop_at scale i = (if i < length scale then Inr (scale ! i) else Inl TypeError)"

definition channel :: "js_number list \<Rightarrow> nat \<Rightarrow> js_number" where
  "channel color k = (if k < length color then color ! k else NaN)"

text \<open>
  The search loop \<open>for (let i = 1; i < colorScale.length; i++)\<close>: at the first stop
  whose position is at least \<open>value\<close> it sets \<open>lowerIndex = i - 1\<close> and breaks;
  when no stop qualifies \<open>lowerIndex\<close> keeps the value it entered with.
\<close>

function find_lowerIndex :: "color_stop list \<Rightarrow> js_number \<Rightarrow> nat \<Rightarrow> nat \<Rightarrow> nat" where
  "find_lowerIndex scale v i lowerIndex =
     (if i < length scale
      then (if js_le v (fst (scale ! i)) then i - 1
            else find_lowerIndex scale v (i + 1) lowerIndex)
      else lowerIndex)"
  by pat_completeness auto
termination
  by (relation "measure (\<lambda>(scale, v, i, lowerIndex). length scale - i)") auto

declare find_lowerIndex.simps [simp del]

text \<open>
  One channel of the result:
  \<open>Math.round(lowerColor[k] + factor * (upperColor[k] - lowerColor[k]))\<close>.
\<close>

definition interpolate_channel ::
  "js_number \<Rightarrow> js_number list \<Rightarrow> js_number list \<Rightarrow> nat \<Rightarrow> js_number" where
  "interpolate_channel factor lowerColor upperColor k =
     Math_round
       (js_add (channel lowerColor k)
          (js_mul factor (js_sub (channel upperColor k) (channel lowerColor k))))"

definition interpolateColor_on :: "color_stop list \<Rightarrow> js_number \<Rightarrow> js_error + js_number list" where
  "interpolateColor_on scale v =
     (let lowerIndex = find_lowerIndex scale v 1 0 in
      case stop_at scale lowerIndex of
        Inl e \<Rightarrow> Inl e
      | Inr lower \<Rightarrow>
         (case stop_at scale (lowerIndex + 1) of
            Inl e \<Rightarrow> Inl e
          | Inr upper \<Rightarrow>
             (let lowerValue = fst lower;
                  upperValue = fst upper;
                  lowerColor = snd lower;
                  upperColor = snd upper;
                  range = js_sub upperValue lowerValue;
                  factor = js_div (js_sub v lowerValue) range
              in Inr [interpolate_channel factor lowerColor upperColor 0,
                      interpolate_channel factor lowerColor upperColor 1,
                      interpolate_channel factor lowerColor upperColor 2])))"

definition interpolateColor :: "js_number \<Rightarrow> js_error + js_number list" where
  "interpolateColor v = interpolateColor_on colorScale v"

text \<open>
  The reading of the specification, for comparison, over the reals: between two
  neighbouring stops each channel moves linearly from the lower stop's channel to the
  upper stop's (\<open>exact_interpolation\<close>), and the result is rounded to the nearest
  integer, a tie going up. Scores up to one half lie between the first and the second
  stop, the others between the second and the third.
\<close>

definition exact_interpolation :: "real \<Rightarrow> real list" where
  "exact_interpolation v =
     (if v \<le> 1 / 2
      then map2 (\<lambda>a b. a + (v - 0) / (1 / 2 - 0) * (b - a)) [44, 123, 182] [255, 255, 191]
      else map2 (\<lambda>a b. a + (v - 1 / 2) / (1 - 1 / 2) * (b - a)) [255, 255, 191] [215, 25, 28])"

definition linear_interpolation_spec :: "real \<Rightarrow> int list" where
  "linear_interpolation_spec v = map (\<lambda>t. \<lfloor>t + 1 / 2\<rfloor>) (exact_interpolation v)"

section \<open>Bivariate map layers\<close>









section \<open>Tile-to-county aggregation\<close>

text \<open>
  Modelled from the spec: the data model of \<open>tools/aggregate_tiles_to_counties.py\<close>.
  The shell scripts call this tool, but its source is not among the source files; its
  records (section 3) and its three stages (spatial join, aggregator, exporter;
  section 4) follow the specification. The weights are those of
  \<open>satellite-pipeline/config/settings.yaml\<close>. Numbers are reals.
\<close>

record tile =
  tile_id :: string
  longitude :: real
  latitude :: real
  ndvi :: real
  ndbi :: real
  ndwi :: real
  mndwi :: real
  ui :: real
  ndmi :: real
  capture_date :: string

text \<open>
  A polygon is represented by the containment test the geometry library gives for it:
  the set of points (longitude, latitude) it contains. A county whose boundary geometry
  is missing or malformed has no polygon.
\<close>

type_synonym polygon = "real \<times> real \<Rightarrow> bool"

record county =
  fips_code :: string
  name :: string
  boundary :: "polygon option"

text \<open>An output feature: the county polygon with the County Score as its properties.\<close>

record feature = county +
  obsolescence_score :: real
  growth_potential_score :: real
  bivariate_score :: real
  confidence :: real
  tile_count :: nat

text \<open>The \<open>processing\<close> block of \<open>settings.yaml\<close>.\<close>

record settings =
  ow_built_up :: real
  ow_veg_health :: real
  ow_urban_index :: real
  gw_veg_health :: real
  gw_built_up_potential :: real
  gw_water_availability :: real
  percentile :: nat

definition settings_yaml :: settings where
  "settings_yaml =
     \<lparr> ow_built_up = 4 / 10, ow_veg_health = 4 / 10, ow_urban_index = 2 / 10,
       gw_veg_health = 4 / 10, gw_built_up_potential = 4 / 10,
       gw_water_availability = 2 / 10,
       percentile = 75 \<rparr>"

text \<open>
  Modelled from the spec: what sections 4.2 and 9 leave open. The specification names
  the three indices of the growth-potential score, the bivariate score and the
  confidence without fixing their formulas, so they are parameters of the aggregator.
\<close>

record conventions =
  growth_veg_health :: "tile \<Rightarrow> real"
  built_up_potential :: "tile \<Rightarrow> real"
  water_availability :: "tile \<Rightarrow> real"
  bivariate_of :: "real \<Rightarrow> real \<Rightarrow> real"
  confidence_of :: "tile list \<Rightarrow> real"

subsection \<open>Spatial join\<close>

text \<open>
  Modelled from the spec: the spatial join of \<open>aggregate_tiles_to_counties.py\<close>
  (section 4.1). Each tile goes to the first county polygon found containing its point;
  a tile outside all polygons is dropped and counted. The result maps a county FIPS
  code to the list of its tiles, in input order.
\<close>

definition contains :: "'a county_scheme \<Rightarrow> tile \<Rightarrow> bool" where
  "contains c t =
     (case boundary c of
        None \<Rightarrow> False
      | Some poly \<Rightarrow> poly (longitude t, latitude t))"

definition enclosing_county :: "county list \<Rightarrow> tile \<Rightarrow> county option" where
  "enclosing_county counties t = find (\<lambda>c. contains c t) counties"

fun join_tiles ::
  "county list \<Rightarrow> tile list \<Rightarrow> (string \<rightharpoonup> tile list) \<Rightarrow> nat
    \<Rightarrow> (string \<rightharpoonup> tile list) \<times> nat" where
  "join_tiles counties [] groups dropped = (groups, dropped)"
| "join_tiles counties (t # ts) groups dropped =
     (case enclosing_county counties t of
        None \<Rightarrow> join_tiles counties ts groups (dropped + 1)
      | Some c \<Rightarrow>
          join_tiles counties ts
            (groups(fips_code c \<mapsto>
               (case groups (fips_code c) of None \<Rightarrow> [] | Some l \<Rightarrow> l) @ [t]))
            dropped)"

definition spatial_join ::
  "county list \<Rightarrow> tile list \<Rightarrow> (string \<rightharpoonup> tile list) \<times> nat" where
  "spatial_join counties tiles = join_tiles counties tiles Map.empty 0"

subsection \<open>Aggregator\<close>

text \<open>
  Modelled from the spec: the aggregator of \<open>aggregate_tiles_to_counties.py\<close>
  (section 4.2). A county-level index is the average of the index over the county's
  tiles; a score is the weighted sum of its three indices under the configured
  weights, clipped to the unit interval. Vegetation health enters the obsolescence
  score as one minus NDVI, the convention of the worked example in section 8. The
  average is taken over the tiles of a scored county only, a list that is never empty
  (on the empty list the quotient below would be HOL's \<open>0 / 0 = 0\<close>).
\<close>

definition mean :: "real list \<Rightarrow> real" where
  "mean xs = sum_list xs / real (length xs)"

definition clip01 :: "real \<Rightarrow> real" where
  "clip01 x = max 0 (min 1 x)"

definition obsolescence_of :: "settings \<Rightarrow> tile list \<Rightarrow> real" where
  "obsolescence_of st ts =
     clip01 (ow_built_up st * mean (map ndbi ts)
           + ow_veg_health st * mean (map (\<lambda>t. 1 - ndvi t) ts)
           + ow_urban_index st * mean (map ui ts))"

definition growth_potential_of :: "settings \<Rightarrow> conventions \<Rightarrow> tile list \<Rightarrow> real" where
  "growth_potential_of st cv ts =
     clip01 (gw_veg_health st * mean (map (growth_veg_health cv) ts)
           + gw_built_up_potential st * mean (map (built_up_potential cv) ts)
           + gw_water_availability st * mean (map (water_availability cv) ts))"

definition score_county :: "settings \<Rightarrow> conventions \<Rightarrow> county \<Rightarrow> tile list \<Rightarrow> feature" where
  "score_county st cv c ts =
     (let ob = obsolescence_of st ts;
          gr = growth_potential_of st cv ts
      in county.extend c
           (feature.fields ob gr (bivariate_of cv ob gr) (clip01 (confidence_of cv ts))
              (length ts)))"

subsection \<open>Exporter\<close>

text \<open>
  Modelled from the spec: the exporter of \<open>aggregate_tiles_to_counties.py\<close>
  (sections 4.2, 4.3 and 7). The scores are joined back onto the county polygons by
  FIPS code, one feature per scored county in the order of the polygons; a county
  with no tiles, or without a boundary geometry, yields no feature.
\<close>

definition export_county ::
  "settings \<Rightarrow> conventions \<Rightarrow> (string \<rightharpoonup> tile list) \<Rightarrow> county \<Rightarrow> feature option" where
  "export_county st cv groups c =
     (case boundary c of
        None \<Rightarrow> None
      | Some poly \<Rightarrow>
         (case groups (fips_code c) of
            None \<Rightarrow> None
          | Some ts \<Rightarrow> if ts = [] then None else Some (score_county st cv c ts)))"

definition aggregate ::
  "settings \<Rightarrow> conventions \<Rightarrow> tile list \<Rightarrow> county list \<Rightarrow> feature list" where
  "aggregate st cv tiles counties =
     List.map_filter (export_county st cv (fst (spatial_join counties tiles))) counties"

definition dropped_count :: "tile list \<Rightarrow> county list \<Rightarrow> nat" where
  "dropped_count tiles counties = snd (spatial_join counties tiles)"

subsection \<open>The join, declaratively\<close>

text \<open>
  The same assignment stated without the loop, for comparison with \<open>join_tiles\<close>: the
  FIPS code a tile is assigned to is that of the first polygon containing it, and the
  tiles of a FIPS code are the input tiles assigned to it.
\<close>

definition assigned_fips :: "county list \<Rightarrow> tile \<Rightarrow> string option" where
  "assigned_fips counties t = map_option fips_code (enclosing_county counties t)"

definition tiles_of :: "county list \<Rightarrow> tile list \<Rightarrow> string \<Rightarrow> tile list" where
  "tiles_of counties tiles k = filter (\<lambda>t. assigned_fips counties t = Some k) tiles"

subsection \<open>Sample data\<close>

text \<open>
  Concrete inputs for the examples below: a tile at a given point carrying the index
  values of the worked example of section 8 of the specification, a county whose
  polygon is the closed unit square with lower left corner \<open>(x0, 0)\<close>, and one choice
  of the conventions the specification leaves open.
\<close>

definition sample_tile :: "string \<Rightarrow> real \<Rightarrow> real \<Rightarrow> tile" where
  "sample_tile i lon lat =
     \<lparr> tile_id = i, longitude = lon, latitude = lat,
       ndvi = 2 / 10, ndbi = 8 / 10, ndwi = 0, mndwi = 0, ui = 5 / 10, ndmi = 0,
       capture_date = ''2024-06-01'' \<rparr>"

definition square_county :: "string \<Rightarrow> string \<Rightarrow> real \<Rightarrow> county" where
  "square_county fips nm x0 =
     \<lparr> fips_code = fips, name = nm,
       boundary = Some (\<lambda>(x, y). x0 \<le> x \<and> x \<le> x0 + 1 \<and> 0 \<le> y \<and> y \<le> 1) \<rparr>"

definition sample_conventions :: conventions where
  "sample_conventions =
     \<lparr> growth_veg_health = ndvi, built_up_potential = ndbi, water_availability = ndwi,
       bivariate_of = (\<lambda>ob gr. gr - ob),
       confidence_of = (\<lambda>ts. 1 - 1 / real (length ts)) \<rparr>"

section \<open>Shell scripts of the pipeline\<close>

text \<open>
  The scripts are sequential orchestration: they test files, call Python tools and
  print messages. The state of a run is the file system, the lines the script itself
  has printed, the external commands it has run, and the shell's \<open>$?\<close>. Directories,
  waiting (\<open>sleep\<close>) and the tools' own printing are not part of the state.
\<close>

type_synonym path = string

datatype json = JString string | JNumber real

type_synonym json_object = "(string \<times> json) list"

text \<open>
  A file, by what a reader finds in it: the tile-score table, the county shapefile, the
  aggregation's output, a GeoJSON feature collection read as plain JSON (the properties
  of each feature), or anything else.
\<close>

datatype file_content =
    Tile_scores "tile list"
  | County_shp "county list"
  | County_geojson "feature list"
  | Feature_collection "json_object list"
  | Other string

type_synonym filesystem = "path \<rightharpoonup> file_content"

datatype command =
    Source path
  | Python path "string list"
  | Script path

text \<open>
  The external commands are a parameter of every script: given the command and the
  file system, the exit status and the file system afterwards.
\<close>

type_synonym tools = "command \<Rightarrow> filesystem \<Rightarrow> nat \<times> filesystem"

record sh =
  files :: filesystem
  stdout :: "string list"
  trace :: "command list"
  status :: nat

definition echo :: "string \<Rightarrow> sh \<Rightarrow> sh" where
  "echo line s = s\<lparr>stdout := stdout s @ [line], status := 0\<rparr>"

definition echo_lines :: "string list \<Rightarrow> sh \<Rightarrow> sh" where
  "echo_lines ls s = fold echo ls s"

definition run :: "tools \<Rightarrow> command \<Rightarrow> sh \<Rightarrow> sh" where
  "run tools cmd s =
     (let (rc, fs) = tools cmd (files s)
      in s\<lparr>files := fs, trace := trace s @ [cmd], status := rc\<rparr>)"

definition mkdir_p :: "path \<Rightarrow> sh \<Rightarrow> sh" where
  "mkdir_p dir s = s\<lparr>status := 0\<rparr>"

definition cp :: "path \<Rightarrow> path \<Rightarrow> sh \<Rightarrow> sh" where
  "cp src dst s =
     (case files s src of
        None \<Rightarrow> s\<lparr>status := 1\<rparr>
      | Some f \<Rightarrow> s\<lparr>files := (files s)(dst \<mapsto> f), status := 0\<rparr>)"

text \<open>A script either runs to its last command or ends at an \<open>exit\<close>.\<close>

datatype 'a flow = Continue 'a | Exit 'a

definition exit_status :: "sh flow \<Rightarrow> nat" where
  "exit_status r = (case r of Continue s \<Rightarrow> status s | Exit s \<Rightarrow> status s)"

definition final :: "sh flow \<Rightarrow> sh" where
  "final r = (case r of Continue s \<Rightarrow> s | Exit s \<Rightarrow> s)"

function string_of_nat :: "nat \<Rightarrow> string" where
  "string_of_nat n =
     (if n < 10 then [''0123456789'' ! n]
      else string_of_nat (n div 10) @ [''0123456789'' ! (n mod 10)])"
  by pat_completeness auto
termination
  by (relation "measure id") auto

declare string_of_nat.simps [simp del]

subsection \<open>\<open>aggregate_counties.sh\<close>\<close>

definition COUNTY_SHP :: path where
  "COUNTY_SHP =
     ''/Users/yairtitelboim/Documents/Kernel/ALLAPPS/LOGhub/data/tl_2024_us_county/tl_2024_us_county.shp''"

definition REGIONS :: "string list" where
  "REGIONS = [''south'', ''west'', ''east'']"

definition TILE_SCORES :: "string \<Rightarrow> path" where
  "TILE_SCORES region = ''data/'' @ region @ ''/tile_scores.csv''"

definition OUTPUT :: "string \<Rightarrow> path" where
  "OUTPUT region = ''data/'' @ region @ ''/county_joined.geojson''"

definition aggregation_command :: "string \<Rightarrow> command" where
  "aggregation_command region =
     Python ''tools/aggregate_tiles_to_counties.py''
       [''--tile-scores'', TILE_SCORES region,
        ''--county-shp'', COUNTY_SHP,
        ''--output'', OUTPUT region,
        ''--visualize'']"

text \<open>
  The body of the loop over the regions. When the tile-score file is not a file the
  region is reported and skipped (\<open>continue\<close>); otherwise the aggregation tool is
  called, and its exit status is not looked at.
\<close>

definition process_region :: "tools \<Rightarrow> string \<Rightarrow> sh \<Rightarrow> sh" where
  "process_region tools region s =
     (let s1 = echo_lines
                 [''=========================================='',
                  ''Processing region: '' @ region,
                  ''==========================================''] s
      in if files s1 (TILE_SCORES region) = None
         then echo_lines
                [''Tile scores file not found: '' @ TILE_SCORES region,
                 ''Skipping region: '' @ region] s1
         else
           (let s2 = echo (''Running aggregation script for '' @ region @ '' region...'') s1;
                s3 = run tools (aggregation_command region) s2
            in echo_lines [region @ '' region processing completed successfully!'', []] s3))"

text \<open>
  The whole script. There is no \<open>set -e\<close> and no \<open>exit\<close>: the run ends after the last
  \<open>echo\<close>, and its exit status is the \<open>$?\<close> left by that command.
\<close>

definition aggregate_counties :: "tools \<Rightarrow> sh \<Rightarrow> sh flow" where
  "aggregate_counties tools s =
     (let s0 = run tools (Source ''loghub_env/bin/activate'') s;
          s1 = fold (process_region tools) REGIONS s0
      in Continue (echo ''Aggregation completed successfully for all regions!'' s1))"

subsection \<open>\<open>phase2_complete.sh\<close>\<close>

definition OUTPUT_DIR :: path where
  "OUTPUT_DIR = ''qa''"

definition FINAL_DATA_DIR :: path where
  "FINAL_DATA_DIR = ''data/final''"

definition COMBINED_GEOJSON :: path where
  "COMBINED_GEOJSON = ''data/final/county_scores.geojson''"

definition VALIDATION_DIR :: path where
  "VALIDATION_DIR = ''data/validation''"

definition static_map_command :: command where
  "static_map_command =
     Python ''tools/create_static_us_map.py''
       [''--output'', OUTPUT_DIR @ ''/full_us_map.png'',
        ''--use-mock-data'',
        ''--county-shp'', COUNTY_SHP]"

definition interactive_map_command :: command where
  "interactive_map_command =
     Python ''tools/create_interactive_us_map.py''
       [''--output'', OUTPUT_DIR @ ''/full_us_map.html'',
        ''--use-mock-data'',
        ''--county-shp'', COUNTY_SHP]"

definition confidence_map_command :: command where
  "confidence_map_command =
     Python ''tools/create_3d_interactive_map.py''
       [''--output'', OUTPUT_DIR @ ''/full_us_map_3d_confidence.html'',
        ''--height-field'', ''confidence'',
        ''--use-mock-data'',
        ''--county-shp'', COUNTY_SHP]"

definition export_command :: command where
  "export_command =
     Python ''tools/create_3d_interactive_map.py''
       [''--output'', OUTPUT_DIR @ ''/full_us_map_3d_tile_count.html'',
        ''--height-field'', ''tile_count'',
        ''--use-mock-data'',
        ''--county-shp'', COUNTY_SHP,
        ''--export-geojson'', COMBINED_GEOJSON]"

definition validation_command :: command where
  "validation_command =
     Python ''tools/validate_data.py''
       [''--input'', COMBINED_GEOJSON,
        ''--output'', VALIDATION_DIR @ ''/county_scores_validation.json'',
        ''--type'', ''geojson'']"

definition banner :: "string \<Rightarrow> sh \<Rightarrow> sh" where
  "banner title s =
     echo_lines
       [''=========================================='',
        title,
        ''==========================================''] s"

text \<open>Steps 1 to 4: the four visualisations, the last of which exports the GeoJSON.\<close>

definition phase2_visualizations :: "tools \<Rightarrow> sh \<Rightarrow> sh" where
  "phase2_visualizations tools s =
     (let s0 = run tools (Source ''loghub_env/bin/activate'') s;
          s1 = mkdir_p VALIDATION_DIR (mkdir_p FINAL_DATA_DIR (mkdir_p OUTPUT_DIR s0));
          s2 = run tools static_map_command
                 (banner ''Generating static visualization...'' s1);
          s3 = run tools interactive_map_command
                 (banner ''Generating interactive visualization...'' s2);
          s4 = run tools confidence_map_command
                 (banner ''Generating 3D interactive visualization (confidence as height)...'' s3)
      in run tools export_command
           (banner ''Generating 3D interactive visualization (tile_count as height)...'' s4))"

text \<open>
  Step 5 and the rest: the validation (\<open>phase2_validation\<close> is the state right after
  it), the test of its \<open>$?\<close> with \<open>exit 1\<close>, the summary and the question whether to
  open the prototype (\<open>reply\<close> is the character read).
\<close>

definition phase2_summary :: "string list" where
  "phase2_summary =
     [''=========================================='',
      ''Phase 2 setup complete!'',
      ''=========================================='',
      ''Static visualization: '' @ OUTPUT_DIR @ ''/full_us_map.png'',
      ''Interactive visualization: '' @ OUTPUT_DIR @ ''/full_us_map.html'',
      ''3D interactive visualization (confidence): '' @ OUTPUT_DIR
         @ ''/full_us_map_3d_confidence.html'',
      ''3D interactive visualization (tile_count): '' @ OUTPUT_DIR
         @ ''/full_us_map_3d_tile_count.html'',
      ''Combined GeoJSON: '' @ COMBINED_GEOJSON,
      ''Validation report: '' @ VALIDATION_DIR @ ''/county_scores_validation.json'']"

definition phase2_validation :: "tools \<Rightarrow> sh \<Rightarrow> sh" where
  "phase2_validation tools s =
     run tools validation_command
       (banner ''Validating GeoJSON data...'' (phase2_visualizations tools s))"

definition phase2_complete :: "tools \<Rightarrow> string \<Rightarrow> sh \<Rightarrow> sh flow" where
  "phase2_complete tools reply s =
     (let s5 = phase2_validation tools s
      in if status s5 \<noteq> 0
         then Exit ((echo ''Error: Data validation failed. Please check the validation report.'' s5)
                      \<lparr>status := 1\<rparr>)
         else
           (let s6 = echo [] (echo_lines phase2_summary s5);
                s7 = (if reply = ''y'' \<or> reply = ''Y''
                      then run tools (Script ''./run_deckgl_prototype.sh'') s6
                      else echo_lines
                             [''You can run the Deck.gl prototype later using:'',
                              ''./run_deckgl_prototype.sh''] s6)
            in Continue (echo ''Phase 2 setup complete!'' s7)))"

subsection \<open>The batch script for the remaining counties\<close>

text \<open>
  The second script of \<open>tools/monitor_progress.sh\<close> (``Process all remaining
  counties in batches''). Its function \<open>get_remaining_count\<close> is inline Python: it
  reads the GEOID column of the county shapefile and the features of the existing
  output file, and prints how many GEOIDs have no feature yet. When the Python raises
  (a file is missing or is not what it should be) nothing is printed.
\<close>

definition OUTPUT_FILE :: path where
  "OUTPUT_FILE = ''data/final/fixed_county_scores.geojson''"

definition BATCH_SIZE :: nat where
  "BATCH_SIZE = 10"

definition MAX_BATCHES :: nat where
  "MAX_BATCHES = 100"

definition shapefile_path :: path where
  "shapefile_path = ''data/tl_2024_us_county/tl_2024_us_county.shp''"

text \<open>
  The properties of an output feature of the aggregation, as section 6 of the
  specification lists them.
\<close>

definition properties_of :: "feature \<Rightarrow> json_object" where
  "properties_of f =
     [(''fips_code'', JString (fips_code f)),
      (''name'', JString (name f)),
      (''obsolescence_score'', JNumber (obsolescence_score f)),
      (''growth_potential_score'', JNumber (growth_potential_score f)),
      (''bivariate_score'', JNumber (bivariate_score f)),
      (''confidence'', JNumber (confidence f)),
      (''tile_count'', JNumber (real (tile_count f)))]"

text \<open>\<open>json.load\<close> of a file and the properties of its features.\<close>

definition feature_properties :: "file_content \<Rightarrow> json_object list option" where
  "feature_properties f =
     (case f of
        Feature_collection ps \<Rightarrow> Some ps
      | County_geojson fs \<Rightarrow> Some (map properties_of fs)
      | _ \<Rightarrow> None)"

definition remaining_fips :: "county list \<Rightarrow> json_object list \<Rightarrow> string list" where
  "remaining_fips counties props =
     (let processed_fips = List.map_filter (\<lambda>p. map_of p ''GEOID'') props;
          all_fips = remdups (map fips_code counties)
      in filter (\<lambda>g. JString g \<notin> set processed_fips) all_fips)"

definition get_remaining_count :: "filesystem \<Rightarrow> nat option" where
  "get_remaining_count fs =
     (case fs shapefile_path of
        Some (County_shp counties_gdf) \<Rightarrow>
          (case fs OUTPUT_FILE of
             None \<Rightarrow> None
           | Some f \<Rightarrow>
              (case feature_properties f of
                 None \<Rightarrow> None
               | Some props \<Rightarrow> Some (length (remaining_fips counties_gdf props))))
      | _ \<Rightarrow> None)"

definition batch_command :: command where
  "batch_command =
     Python ''tools/process_remaining_counties.py''
       [''--batch-size'', string_of_nat BATCH_SIZE, ''--output'', OUTPUT_FILE]"

text \<open>
  The loop \<open>while [ $batch_num -le $MAX_BATCHES ]\<close>. The test
  \<open>[ $remaining_count -eq 0 ]\<close> succeeds only on a printed zero; it then breaks.
  Otherwise the batch tool is run on the output file as it stands, a non-zero status
  of the tool ends the script with \<open>exit 1\<close>, and the file is copied to the web
  application. The result carries \<open>batch_num\<close>.
\<close>

function batch_loop :: "tools \<Rightarrow> nat \<Rightarrow> sh \<Rightarrow> (nat \<times> sh) flow" where
  "batch_loop tools batch_num s =
     (if batch_num \<le> MAX_BATCHES then
        (let remaining_count = get_remaining_count (files s)
         in if remaining_count = Some 0
            then Continue (batch_num, echo ''All counties have been processed!'' s)
            else
              (let s1 = echo (''Batch '' @ string_of_nat batch_num @ '': Processing ''
                              @ string_of_nat BATCH_SIZE @ '' counties (''
                              @ (case remaining_count of
                                   None \<Rightarrow> []
                                 | Some n \<Rightarrow> string_of_nat n)
                              @ '' remaining)'') s;
                   s2 = run tools batch_command s1
               in if status s2 \<noteq> 0
                  then Exit (batch_num,
                             (echo (''Error processing batch '' @ string_of_nat batch_num) s2)
                               \<lparr>status := 1\<rparr>)
                  else
                    (let s3 = cp OUTPUT_FILE
                                (''county-viz-app/public/data/final/''
                                   @ ''fixed_county_scores.geojson'')
                                (mkdir_p ''county-viz-app/public/data/final/'' s2);
                         s4 = echo_lines
                                [''Batch '' @ string_of_nat batch_num @ '' complete!'',
                                 ''Waiting 30 seconds before starting the next batch...''] s3
                     in batch_loop tools (batch_num + 1) s4)))
      else Continue (batch_num, s))"
  by pat_completeness auto
termination
  by (relation "measure (\<lambda>(tools, batch_num, s). MAX_BATCHES + 1 - batch_num)") auto

declare batch_loop.simps [simp del]

definition process_all_remaining :: "tools \<Rightarrow> sh \<Rightarrow> sh flow" where
  "process_all_remaining tools s =
     (case batch_loop tools 1 s of
        Exit (batch_num, s') \<Rightarrow> Exit s'
      | Continue (batch_num, s') \<Rightarrow>
          Continue
            (echo_lines
               [''Processing complete!'',
                ''Processed '' @ string_of_nat (MAX_BATCHES * BATCH_SIZE) @ '' counties in ''
                  @ string_of_nat (batch_num - 1) @ '' batches''] s'))"

subsection \<open>The tools, as far as they are known\<close>

text \<open>The value that follows a flag on the command line.\<close>

fun arg_value :: "string \<Rightarrow> string list \<Rightarrow> string option" where
  "arg_value flag (a # b # rest) =
     (if a = flag then Some b else arg_value flag (b # rest))"
| "arg_value flag _ = None"

definition write_arg :: "string \<Rightarrow> file_content \<Rightarrow> string list \<Rightarrow> filesystem \<Rightarrow> filesystem" where
  "write_arg flag content args fs =
     (case arg_value flag args of None \<Rightarrow> fs | Some p \<Rightarrow> fs(p \<mapsto> content))"

text \<open>
  Modelled from the spec: the command-line entry of
  \<open>tools/aggregate_tiles_to_counties.py\<close>, which is not among the files at hand
  (sections 5, 6 and 7). It reads the tile records and the county polygons from the
  files named, and writes the feature collection to the output path, in place of
  whatever was there. A required input file that is missing, or is not what it should
  be, is fatal: the exit status is not zero and nothing is written.
\<close>

definition aggregate_tiles_to_counties ::
  "settings \<Rightarrow> conventions \<Rightarrow> string list \<Rightarrow> filesystem \<Rightarrow> nat \<times> filesystem" where
  "aggregate_tiles_to_counties st cv args fs =
     (case (arg_value ''--tile-scores'' args, arg_value ''--county-shp'' args,
            arg_value ''--output'' args) of
        (Some tile_scores, Some county_shp, Some output) \<Rightarrow>
          (case fs tile_scores of
             Some (Tile_scores tiles) \<Rightarrow>
               (case fs county_shp of
                  Some (County_shp counties) \<Rightarrow>
                    (0, fs(output \<mapsto> County_geojson (aggregate st cv tiles counties)))
                | _ \<Rightarrow> (1, fs))
           | _ \<Rightarrow> (1, fs))
      | _ \<Rightarrow> (2, fs))"

text \<open>
  An environment for the examples: the aggregation tool is the one above; the
  validator exits with the status given and writes its report; every other Python
  tool writes the files its arguments name and exits with status 0; sourcing the
  environment and the prototype script change no file.
\<close>

definition mock_features :: "json_object list" where
  "mock_features =
     [[(''GEOID'', JString ''01001''), (''obsolescence_score'', JNumber (1 / 2)),
       (''confidence'', JNumber (9 / 10)), (''tile_count'', JNumber 12)]]"

definition sample_tools :: "settings \<Rightarrow> conventions \<Rightarrow> nat \<Rightarrow> tools" where
  "sample_tools st cv validation_status cmd fs =
     (case cmd of
        Python script args \<Rightarrow>
          if script = ''tools/aggregate_tiles_to_counties.py''
          then aggregate_tiles_to_counties st cv args fs
          else if script = ''tools/validate_data.py''
          then (validation_status, write_arg ''--output'' (Other ''validation report'') args fs)
          else (0, write_arg ''--export-geojson'' (Feature_collection mock_features) args
                     (write_arg ''--output'' (Other script) args fs))
      | _ \<Rightarrow> (0, fs))"

text \<open>The state a loop ends in, whichever way it ends.\<close>

definition loop_state :: "(nat \<times> sh) flow \<Rightarrow> sh" where
  "loop_state r = (case r of Continue (n, s) \<Rightarrow> s | Exit (n, s) \<Rightarrow> s)"

subsection \<open>Sample runs\<close>

text \<open>
  Inputs for the examples: an empty run state over a file system; a file system with
  the county shapefile and the tile scores of the region \<open>west\<close> only; one for the
  batch script, with a one-county shapefile and a previous output file; and an
  environment in which every command fails without touching a file.
\<close>

definition initial :: "filesystem \<Rightarrow> sh" where
  "initial fs = \<lparr>files = fs, stdout = [], trace = [], status = 0\<rparr>"

definition sample_files :: filesystem where
  "sample_files =
     [COUNTY_SHP \<mapsto> County_shp [square_county ''12345'' ''A'' 0, square_county ''99999'' ''Z'' 5],
      TILE_SCORES ''west'' \<mapsto>
        Tile_scores [sample_tile ''t1'' (1 / 4) (1 / 2), sample_tile ''t2'' (1 / 2) (1 / 2),
                     sample_tile ''t3'' (3 / 4) (1 / 4)]]"

definition batch_files :: "json_object list \<Rightarrow> filesystem" where
  "batch_files previous =
     [shapefile_path \<mapsto> County_shp [square_county ''01001'' ''Autauga'' 0],
      TILE_SCORES ''south'' \<mapsto> Tile_scores [sample_tile ''t1'' (1 / 4) (1 / 2)],
      OUTPUT_FILE \<mapsto> Feature_collection previous]"

definition failing_tools :: tools where
  "failing_tools cmd fs = (1, fs)"

section \<open>Properties of the colour interpolation\<close>

lemma pow2_powr: "pow2 k = 2 powr (of_int k)"
proof (cases "0 \<le> k")
  case True
  then show ?thesis
    by (simp add: pow2_def powr_realpow [symmetric])
next
  case False
  then have "(2::real) powr (of_int k) = 1 / 2 powr (of_int (- k))"
    by (simp add: powr_minus_divide)
  also have "\<dots> = 1 / 2 ^ nat (- k)"
    using False by (simp add: powr_realpow [symmetric])
  finally show ?thesis using False by (simp add: pow2_def)
qed

lemma pow2_pos [simp]: "0 < pow2 k"
  by (simp add: pow2_powr)

lemma pow2_add: "pow2 (j + k) = pow2 j * pow2 k"
  by (simp add: pow2_powr powr_add)

lemma pow2_mono: "j \<le> k \<Longrightarrow> pow2 j \<le> pow2 k"
  by (simp add: pow2_powr)

lemma pow2_strict_mono: "j < k \<Longrightarrow> pow2 j < pow2 k"
  by (simp add: pow2_powr)

lemma pow2_nonneg_int: "0 \<le> k \<Longrightarrow> pow2 k = of_int (2 ^ nat k)"
  by (simp add: pow2_def)

lemma pow2_half: "pow2 (k - 1) = pow2 k / 2"
  by (simp add: pow2_powr powr_diff)

lemma binade_from_lower: "- 1022 \<le> binade_from a n"
  by (induction n) auto

lemma binade_from_upper:
  "a < pow2 (e + 1) \<Longrightarrow> - 1022 \<le> e \<Longrightarrow> binade_from a n \<le> e"
proof (induction n)
  case 0
  then show ?case by simp
next
  case (Suc n)
  show ?case
  proof (cases "pow2 (int (Suc n) - 1022) \<le> a")
    case True
    with Suc.prems(1) have "pow2 (int (Suc n) - 1022) < pow2 (e + 1)" by simp
    then have "int (Suc n) - 1022 < e + 1"
      by (simp add: pow2_powr)
    with True show ?thesis by simp
  next
    case False
    with Suc show ?thesis by simp
  qed
qed

lemma binade_from_eq:
  "pow2 e \<le> a \<Longrightarrow> a < pow2 (e + 1) \<Longrightarrow> - 1022 \<le> e \<Longrightarrow> e \<le> int n - 1022 \<Longrightarrow>
   binade_from a n = e"
proof (induction n)
  case 0
  then show ?case by simp
next
  case (Suc n)
  show ?case
  proof (cases "int (Suc n) - 1022 = e")
    case True
    with Suc.prems show ?thesis by simp
  next
    case False
    with Suc.prems have lt: "e + 1 \<le> int (Suc n) - 1022" by simp
    then have "pow2 (e + 1) \<le> pow2 (int (Suc n) - 1022)" by (rule pow2_mono)
    with Suc.prems(2) have "\<not> pow2 (int (Suc n) - 1022) \<le> a" by simp
    moreover have "binade_from a n = e"
      using Suc.prems lt by (intro Suc.IH) simp_all
    ultimately show ?thesis by simp
  qed
qed

lemma binade_eq:
  "pow2 e \<le> a \<Longrightarrow> a < pow2 (e + 1) \<Longrightarrow> - 1022 \<le> e \<Longrightarrow> e \<le> 1024 \<Longrightarrow> binade a = e"
  unfolding binade_def by (rule binade_from_eq) simp_all

lemma binade_upper: "a < pow2 (e + 1) \<Longrightarrow> - 1022 \<le> e \<Longrightarrow> binade a \<le> e"
  unfolding binade_def by (rule binade_from_upper)

lemma binade_lower: "- 1022 \<le> binade a"
  unfolding binade_def by (rule binade_from_lower)

lemma round_ties_even_error: "\<bar>of_int (round_ties_even q) - q\<bar> \<le> 1 / 2"
  unfolding round_ties_even_def Let_def by (auto simp: abs_le_iff)

lemma round_ties_even_int [simp]: "round_ties_even (of_int m) = m"
  by (simp add: round_ties_even_def)

lemma round_ties_even_le: "q \<le> of_int N \<Longrightarrow> round_ties_even q \<le> N"
proof -
  assume q: "q \<le> of_int N"
  show ?thesis
  proof (cases "q = of_int N")
    case True
    then show ?thesis by simp
  next
    case False
    with q have "q < of_int N" by simp
    then have "\<lfloor>q\<rfloor> < N" by (simp add: floor_less_iff)
    then have "\<lfloor>q\<rfloor> + 1 \<le> N" by simp
    then show ?thesis
      unfolding round_ties_even_def Let_def by (auto split: if_splits)
  qed
qed

lemma round_ties_even_ge: "of_int N \<le> q \<Longrightarrow> N \<le> round_ties_even q"
proof -
  assume "of_int N \<le> q"
  then have "N \<le> \<lfloor>q\<rfloor>" by (simp add: le_floor_iff)
  then show ?thesis
    unfolding round_ties_even_def Let_def by (auto split: if_splits)
qed

lemma abs_pow2 [simp]: "\<bar>pow2 j\<bar> = pow2 j"
  by (rule abs_of_pos) simp

lemma max_double_pow2: "pow2 1023 \<le> max_double"
proof -
  have "pow2 1023 = pow2 52 * pow2 971"
    using pow2_add [of 52 971] by simp
  also have "\<dots> \<le> (2 ^ 53 - 1) * pow2 971"
    by (intro mult_right_mono) (simp_all add: pow2_def)
  also have "\<dots> = max_double"
    by (simp add: max_double_def pow2_def)
  finally show ?thesis .
qed

lemma fl_rounding:
  assumes x: "\<bar>x\<bar> \<le> pow2 k" and k: "- 1022 \<le> k" "k \<le> 1023"
  shows "\<exists>y. finite_value (fl x) = Some y \<and> \<bar>y - x\<bar> \<le> pow2 (k - 53) \<and> \<bar>y\<bar> \<le> pow2 k
             \<and> (y \<noteq> 0 \<longrightarrow> fl x = Finite y)"
proof -
  define b where "b = binade \<bar>x\<bar>"
  define u where "u = pow2 (b - 52)"
  define n where "n = round_ties_even (x / u)"
  define y where "y = of_int n * u"
  have u: "0 < u" by (simp add: u_def)
  have "\<bar>x\<bar> < pow2 (k + 1)"
    using x pow2_strict_mono [of k "k + 1"] by simp
  then have bk: "b \<le> k"
    unfolding b_def using k(1) by (rule binade_upper)
  have err: "\<bar>y - x\<bar> \<le> u / 2"
  proof -
    have "y - x = (of_int n - x / u) * u"
      using u by (simp add: y_def field_simps)
    then have "\<bar>y - x\<bar> = \<bar>of_int n - x / u\<bar> * u"
      using u by (simp add: abs_mult)
    also have "\<dots> \<le> (1 / 2) * u"
      using round_ties_even_error [of "x / u"] u
      by (intro mult_right_mono) (simp_all add: n_def)
    finally show ?thesis by simp
  qed
  have "u / 2 = pow2 (b - 53)"
    using pow2_half [of "b - 52"] by (simp add: u_def)
  also have "\<dots> \<le> pow2 (k - 53)"
    using bk by (intro pow2_mono) simp
  finally have e1: "\<bar>y - x\<bar> \<le> pow2 (k - 53)"
    using err by simp
  define N :: int where "N = 2 ^ nat (k - b + 52)"
  have Nu: "of_int N * u = pow2 k"
  proof -
    have "of_int N = pow2 (k - b + 52)"
      using bk by (simp add: N_def pow2_nonneg_int)
    moreover have "pow2 (k - b + 52) * pow2 (b - 52) = pow2 ((k - b + 52) + (b - 52))"
      by (rule pow2_add [symmetric])
    ultimately show ?thesis by (simp add: u_def)
  qed
  have q: "x / u \<le> of_int N" "of_int (- N) \<le> x / u"
  proof -
    have "\<bar>x\<bar> / u \<le> pow2 k / u"
      using x u by (simp add: divide_right_mono)
    also have "pow2 k / u = of_int N"
      using Nu u by (simp add: field_simps)
    finally have "\<bar>x / u\<bar> \<le> of_int N"
      using u by simp
    then have "x / u \<le> of_int N \<and> - of_int N \<le> x / u"
      unfolding abs_le_iff by linarith
    then show "x / u \<le> of_int N" "of_int (- N) \<le> x / u"
      by simp_all
  qed
  have "n \<le> N" "- N \<le> n"
    using round_ties_even_le [OF q(1)] round_ties_even_ge [OF q(2)] by (simp_all add: n_def)
  then have "\<bar>(of_int n :: real)\<bar> \<le> of_int N"
    by (simp add: abs_le_iff)
  then have "\<bar>y\<bar> \<le> of_int N * u"
    using u by (simp add: y_def abs_mult mult_right_mono)
  then have e2: "\<bar>y\<bar> \<le> pow2 k" by (simp add: Nu)
  have "pow2 k \<le> pow2 1023" using k(2) by (rule pow2_mono)
  with e2 max_double_pow2 have nov: "\<not> max_double < \<bar>y\<bar>" by simp
  have flx: "fl x = (if y = 0 then (if x < 0 then NegZero else Finite 0) else Finite y)"
    using nov by (simp add: fl_def Let_def b_def [symmetric] u_def [symmetric]
        n_def [symmetric] y_def [symmetric])
  then have "finite_value (fl x) = Some y" "y \<noteq> 0 \<longrightarrow> fl x = Finite y"
    by auto
  with e1 e2 show ?thesis by blast
qed

lemma fl_exact:
  assumes x: "x = of_int m * pow2 j" and m: "\<bar>m\<bar> < 2 ^ 53" and j: "- 1074 \<le> j" "j \<le> 971"
    and nz: "x \<noteq> 0"
  shows "fl x = Finite x"
proof -
  define b where "b = binade \<bar>x\<bar>"
  define u where "u = pow2 (b - 52)"
  have u: "0 < u" by (simp add: u_def)
  have "(of_int \<bar>m\<bar> :: real) < of_int (2 ^ 53)"
    using m by (simp only: of_int_less_iff)
  then have mr: "\<bar>of_int m :: real\<bar> < 2 ^ 53"
    by simp
  have "\<bar>x\<bar> = \<bar>of_int m\<bar> * pow2 j"
    by (simp add: x abs_mult)
  also have "\<dots> < 2 ^ 53 * pow2 j"
    using mr by (intro mult_strict_right_mono) simp_all
  also have "\<dots> = pow2 53 * pow2 j"
    by (simp add: pow2_def)
  also have "\<dots> = pow2 (j + 52 + 1)"
    using pow2_add [of 53 j] by (simp add: add.commute)
  finally have lt: "\<bar>x\<bar> < pow2 (j + 52 + 1)" .
  then have bj: "b \<le> j + 52"
    unfolding b_def using j(1) by (intro binade_upper) simp_all
  define M :: int where "M = m * 2 ^ nat (j - (b - 52))"
  have "pow2 j = pow2 (j - (b - 52)) * u"
    using pow2_add [of "j - (b - 52)" "b - 52"] by (simp add: u_def)
  also have "pow2 (j - (b - 52)) = of_int (2 ^ nat (j - (b - 52)))"
    using bj by (intro pow2_nonneg_int) simp
  finally have xu: "x = of_int M * u"
    by (simp add: x M_def)
  then have "x / u = of_int M" using u by simp
  then have y: "of_int (round_ties_even (x / u)) * u = x"
    by (simp add: xu)
  have "\<bar>x\<bar> \<le> max_double"
  proof -
    have "\<bar>m\<bar> \<le> 2 ^ 53 - 1" using m by simp
    then have "(of_int \<bar>m\<bar> :: real) \<le> of_int (2 ^ 53 - 1)"
      by (simp only: of_int_le_iff)
    then have "\<bar>of_int m :: real\<bar> \<le> 2 ^ 53 - 1"
      by simp
    moreover have "pow2 j \<le> pow2 971" using j(2) by (rule pow2_mono)
    moreover have "0 \<le> pow2 j"
      by (rule less_imp_le) (rule pow2_pos)
    ultimately have "\<bar>of_int m\<bar> * pow2 j \<le> (2 ^ 53 - 1) * pow2 971"
      by (intro mult_mono) simp_all
    then show ?thesis
      by (simp add: x abs_mult max_double_def pow2_def)
  qed
  then show ?thesis
    using nz by (simp add: fl_def Let_def b_def [symmetric] u_def [symmetric] y)
qed

lemma fl_int:
  "\<bar>m\<bar> < 2 ^ 53 \<Longrightarrow> m \<noteq> 0 \<Longrightarrow> fl (of_int m) = Finite (of_int m)"
  using fl_exact [of "of_int m" m 0] by (simp add: pow2_def)


lemma finite_value_signed_zero [simp]: "finite_value (signed_zero s) = Some 0"
  by (simp add: signed_zero_def)

lemma finite_value_not_NaN: "finite_value a = Some x \<Longrightarrow> a \<noteq> NaN"
  by auto

lemma rounded_result:
  assumes "\<bar>z\<bar> \<le> pow2 k" and "- 1022 \<le> k" and "k \<le> 1023"
  shows "\<exists>y. finite_value (if z = 0 then signed_zero s else fl z) = Some y
           \<and> \<bar>y - z\<bar> \<le> pow2 (k - 53) \<and> \<bar>y\<bar> \<le> pow2 k
           \<and> (y \<noteq> 0 \<longrightarrow> (if z = 0 then signed_zero s else fl z) = Finite y)"
proof (cases "z = 0")
  case True
  have "0 \<le> pow2 (k - 53)" "0 \<le> pow2 k"
    by (rule less_imp_le, rule pow2_pos)+
  with True show ?thesis by simp
next
  case False
  with fl_rounding [OF assms] show ?thesis by simp
qed

lemma js_sub_finite:
  "js_sub (Finite x) (Finite y)
     = (if x - y = 0 then signed_zero False else fl (x - y))"
  by (simp add: js_sub_def js_add_def)

lemma js_sub_examples:
  "js_sub (Finite (1 / 2)) (Finite 0) = Finite (1 / 2)"
  "js_sub (Finite 1) (Finite (1 / 2)) = Finite (1 / 2)"
  "js_sub (Finite 255) (Finite 44) = Finite (255 - 44)"
  "js_sub (Finite 255) (Finite 123) = Finite (255 - 123)"
  "js_sub (Finite 191) (Finite 182) = Finite (191 - 182)"
  "js_sub (Finite 215) (Finite 255) = Finite (215 - 255)"
  "js_sub (Finite 25) (Finite 255) = Finite (25 - 255)"
  "js_sub (Finite 28) (Finite 191) = Finite (28 - 191)"
  using fl_exact [of "1 / 2" 1 "- 1"] fl_int [of 211] fl_int [of 132] fl_int [of 9]
    fl_int [of "- 40"] fl_int [of "- 230"] fl_int [of "- 163"]
  by (simp_all add: js_sub_finite pow2_def)

lemma factor_bound:
  assumes "lv \<le> v" and "v - lv \<le> 1 / 2"
  shows "\<exists>f'. finite_value (js_div (js_sub (Finite v) (Finite lv)) (Finite (1 / 2))) = Some f'
            \<and> \<bar>f' - (v - lv) / (1 / 2)\<bar> \<le> pow2 (- 52) \<and> \<bar>f'\<bar> \<le> 1"
proof -
  have "\<bar>v - lv\<bar> \<le> pow2 (- 1)"
    using assms by (simp add: pow2_def)
  from rounded_result [OF this, of False]
  obtain a' where a: "finite_value (js_sub (Finite v) (Finite lv)) = Some a'"
    and ae: "\<bar>a' - (v - lv)\<bar> \<le> pow2 (- 54)" and ab: "\<bar>a'\<bar> \<le> pow2 (- 1)"
    by (auto simp: js_sub_finite)
  let ?a = "js_sub (Finite v) (Finite lv)"
  have div: "js_div ?a (Finite (1 / 2))
      = (if a' / (1 / 2) = 0 then signed_zero (sign_neg ?a) else fl (a' / (1 / 2)))"
    using a finite_value_not_NaN [OF a] by (simp add: js_div_def)
  have "\<bar>a' / (1 / 2)\<bar> \<le> pow2 0"
    using ab by (simp add: pow2_def)
  from rounded_result [OF this, of "sign_neg ?a"]
  obtain f' where f: "finite_value (js_div ?a (Finite (1 / 2))) = Some f'"
    and fe: "\<bar>f' - a' / (1 / 2)\<bar> \<le> pow2 (- 53)" and fb: "\<bar>f'\<bar> \<le> pow2 0"
    by (auto simp: div)
  have "\<bar>f' - (v - lv) / (1 / 2)\<bar> = \<bar>(f' - a' / (1 / 2)) + 2 * (a' - (v - lv))\<bar>"
    by (simp add: algebra_simps)
  also have "\<dots> \<le> \<bar>f' - a' / (1 / 2)\<bar> + \<bar>2 * (a' - (v - lv))\<bar>"
    by (rule abs_triangle_ineq)
  also have "\<dots> = \<bar>f' - a' / (1 / 2)\<bar> + 2 * \<bar>a' - (v - lv)\<bar>"
    by (simp only: abs_mult)
  also have "\<dots> \<le> pow2 (- 53) + 2 * pow2 (- 54)"
    using fe ae by (intro add_mono mult_left_mono) simp_all
  also have "\<dots> = pow2 (- 52)"
    by (simp add: pow2_def)
  finally have "\<bar>f' - (v - lv) / (1 / 2)\<bar> \<le> pow2 (- 52)" .
  moreover have "\<bar>f'\<bar> \<le> 1" using fb by (simp add: pow2_def)
  ultimately show ?thesis using f by blast
qed

lemma channel_bound:
  assumes f: "finite_value f = Some f'"
    and fe: "\<bar>f' - F\<bar> \<le> pow2 (- 52)" and fb: "\<bar>f'\<bar> \<le> 1"
    and F: "0 \<le> F" "F \<le> 1"
    and l: "25 \<le> l" "l \<le> 255" and u: "25 \<le> u" "u \<le> 255" and ul: "u \<noteq> l"
  shows "\<exists>s. Math_round (js_add (Finite l) (js_mul f (Finite (u - l))))
               = Finite (of_int \<lfloor>s + 1 / 2\<rfloor>)
           \<and> \<bar>s - (l + F * (u - l))\<bar> \<le> pow2 (- 42)"
proof -
  define D where "D = u - l"
  have D: "\<bar>D\<bar> \<le> 230" "D \<noteq> 0"
    using l u ul by (simp_all add: D_def)
  have mul: "js_mul f (Finite D)
      = (if f' * D = 0 then signed_zero (sign_neg f \<noteq> sign_neg (Finite D)) else fl (f' * D))"
    using f finite_value_not_NaN [OF f] by (simp add: js_mul_def)
  have "\<bar>f' * D\<bar> \<le> 1 * 230"
    unfolding abs_mult using fb D(1) by (intro mult_mono) simp_all
  then have "\<bar>f' * D\<bar> \<le> pow2 8"
    by (simp add: pow2_def)
  from rounded_result [OF this, of "sign_neg f \<noteq> sign_neg (Finite D)"]
  obtain p' where p: "finite_value (js_mul f (Finite D)) = Some p'"
    and pe: "\<bar>p' - f' * D\<bar> \<le> pow2 (- 45)"
    by (auto simp: mul)
  have "\<bar>(f' - F) * D\<bar> \<le> pow2 (- 52) * 230"
    unfolding abs_mult using fe D(1) by (intro mult_mono) simp_all
  then have e1: "\<bar>f' * D - F * D\<bar> \<le> pow2 (- 52) * 230"
    by (simp add: algebra_simps)
  have "\<bar>p' - F * D\<bar> = \<bar>(p' - f' * D) + (f' * D - F * D)\<bar>"
    by simp
  also have "\<dots> \<le> \<bar>p' - f' * D\<bar> + \<bar>f' * D - F * D\<bar>"
    by (rule abs_triangle_ineq)
  also have "\<dots> \<le> pow2 (- 45) + pow2 (- 52) * 230"
    using pe e1 by (intro add_mono)
  finally have pF: "\<bar>p' - F * D\<bar> \<le> pow2 (- 45) + pow2 (- 52) * 230" .
  have small: "pow2 (- 45) + pow2 (- 52) * 230 \<le> 1 / 2"
    by (simp add: pow2_def)
  have conv: "l + F * D = (1 - F) * l + F * u"
    by (simp add: D_def algebra_simps)
  have "(1 - F) * 25 + F * 25 \<le> (1 - F) * l + F * u"
    using F l u by (intro add_mono mult_left_mono) simp_all
  moreover have "(1 - F) * 25 + F * 25 = 25"
    by (simp add: algebra_simps)
  ultimately have lo: "25 \<le> l + F * D"
    by (simp only: conv)
  have "(1 - F) * l + F * u \<le> (1 - F) * 255 + F * 255"
    using F l u by (intro add_mono mult_left_mono) simp_all
  moreover have "(1 - F) * 255 + F * 255 = 255"
    by (simp add: algebra_simps)
  ultimately have hi: "l + F * D \<le> 255"
    by (simp only: conv)
  have near: "\<bar>(l + p') - (l + F * D)\<bar> \<le> pow2 (- 45) + pow2 (- 52) * 230"
    using pF by simp
  then have lp: "24 \<le> l + p'" "l + p' \<le> 256"
    using lo hi small by (simp_all add: abs_le_iff)
  have add: "js_add (Finite l) (js_mul f (Finite D)) = fl (l + p')"
    using p finite_value_not_NaN [OF p] lp(1) by (simp add: js_add_def)
  have "\<bar>l + p'\<bar> \<le> pow2 9"
    using lp by (simp add: pow2_def)
  from fl_rounding [OF this]
  obtain s where s: "finite_value (fl (l + p')) = Some s"
    and se: "\<bar>s - (l + p')\<bar> \<le> pow2 (- 44)"
    and sf: "s \<noteq> 0 \<longrightarrow> fl (l + p') = Finite s"
    by auto
  have "pow2 (- 44) \<le> 1 / 2"
    by (simp add: pow2_def)
  with se lp(1) have s23: "23 \<le> s"
    by (simp add: abs_le_iff)
  with sf have fin: "fl (l + p') = Finite s" by simp
  have "23 \<le> \<lfloor>s + 1 / 2\<rfloor>"
    using s23 by (simp add: le_floor_iff)
  then have round: "Math_round (Finite s) = Finite (of_int \<lfloor>s + 1 / 2\<rfloor>)"
    by (simp add: Let_def)
  have "\<bar>s - (l + F * D)\<bar> = \<bar>(s - (l + p')) + ((l + p') - (l + F * D))\<bar>"
    by simp
  also have "\<dots> \<le> \<bar>s - (l + p')\<bar> + \<bar>(l + p') - (l + F * D)\<bar>"
    by (rule abs_triangle_ineq)
  also have "\<dots> \<le> pow2 (- 44) + (pow2 (- 45) + pow2 (- 52) * 230)"
    using se near by (intro add_mono)
  also have "\<dots> \<le> pow2 (- 42)"
    by (simp add: pow2_def)
  finally have "\<bar>s - (l + F * D)\<bar> \<le> pow2 (- 42)" .
  with round add fin show ?thesis
    by (auto simp: D_def)
qed

lemma fl_eval:
  assumes lo: "pow2 e \<le> \<bar>x\<bar>" and hi: "\<bar>x\<bar> < pow2 (e + 1)"
    and e: "- 1022 \<le> e" "e \<le> 1022"
  shows "fl x = Finite (of_int (round_ties_even (x / pow2 (e - 52))) * pow2 (e - 52))"
proof -
  have b: "binade \<bar>x\<bar> = e"
    using lo hi e by (intro binade_eq) simp_all
  have "\<bar>x\<bar> \<le> pow2 (e + 1)" using hi by simp
  from fl_rounding [OF this] e
  obtain y where y: "finite_value (fl x) = Some y" and yx: "\<bar>y - x\<bar> \<le> pow2 (e + 1 - 53)"
    and yf: "y \<noteq> 0 \<longrightarrow> fl x = Finite y"
    by auto
  have "pow2 (e + 1 - 53) < pow2 e"
    by (intro pow2_strict_mono) simp
  with yx lo have "y \<noteq> 0"
    by (auto simp: abs_le_iff)
  with yf have fy: "fl x = Finite y" by simp
  then have "fl x \<noteq> NegZero" "fl x \<noteq> PosInf" "fl x \<noteq> NegInf"
    by simp_all
  then show ?thesis
    unfolding fl_def Let_def b by (auto split: if_splits)
qed

lemma fl_numeral:
  "numeral n < (9007199254740992::int) \<Longrightarrow> fl (numeral n) = Finite (numeral n)"
  "numeral n < (9007199254740992::int) \<Longrightarrow> fl (- numeral n) = Finite (- numeral n)"
  "fl 1 = Finite 1"
  using fl_int [of "numeral n"] fl_int [of "- numeral n"] fl_int [of 1]
  by simp_all

lemma find_lowerIndex_low:
  "v \<le> 1 / 2 \<Longrightarrow> find_lowerIndex colorScale (Finite v) 1 0 = 0"
  by (subst find_lowerIndex.simps) (simp add: colorScale_def js_le_def)

lemma find_lowerIndex_high:
  "1 / 2 < v \<Longrightarrow> v \<le> 1 \<Longrightarrow> find_lowerIndex colorScale (Finite v) 1 0 = 1"
  apply (subst find_lowerIndex.simps)
  apply (subst find_lowerIndex.simps)
  apply (simp add: colorScale_def js_le_def)
  done

lemma interpolateColor_low:
  assumes "v \<le> 1 / 2"
  shows "interpolateColor (Finite v)
     = (let factor = js_div (js_sub (Finite v) (Finite 0)) (Finite (1 / 2))
        in Inr [Math_round (js_add (Finite 44) (js_mul factor (Finite (255 - 44)))),
                Math_round (js_add (Finite 123) (js_mul factor (Finite (255 - 123)))),
                Math_round (js_add (Finite 182) (js_mul factor (Finite (191 - 182))))])"
  unfolding interpolateColor_def interpolateColor_on_def find_lowerIndex_low [OF assms]
  by (simp add: stop_at_def colorScale_def interpolate_channel_def channel_def Let_def
      js_sub_examples del: js_number.inject of_int_numeral)

lemma interpolateColor_high:
  assumes "1 / 2 < v" and "v \<le> 1"
  shows "interpolateColor (Finite v)
     = (let factor = js_div (js_sub (Finite v) (Finite (1 / 2))) (Finite (1 / 2))
        in Inr [Math_round (js_add (Finite 255) (js_mul factor (Finite (215 - 255)))),
                Math_round (js_add (Finite 255) (js_mul factor (Finite (25 - 255)))),
                Math_round (js_add (Finite 191) (js_mul factor (Finite (28 - 191))))])"
  unfolding interpolateColor_def interpolateColor_on_def find_lowerIndex_high [OF assms]
  by (simp add: stop_at_def colorScale_def interpolate_channel_def channel_def Let_def
      js_sub_examples del: js_number.inject)

lemma interpolateColor_stops:
  "interpolateColor (Finite 0) = Inr [Finite 44, Finite 123, Finite 182]"
  "interpolateColor (Finite (1 / 2)) = Inr [Finite 255, Finite 255, Finite 191]"
  "interpolateColor (Finite 1) = Inr [Finite 215, Finite 25, Finite 28]"
proof -
  have zero: "js_div (js_sub (Finite 0) (Finite 0)) (Finite (1 / 2)) = Finite 0"
    by (simp add: js_sub_finite js_div_def signed_zero_def)
  have half: "js_div (js_sub (Finite (1 / 2)) (Finite 0)) (Finite (1 / 2)) = Finite 1"
    by (simp add: js_sub_examples js_div_def fl_numeral)
  have one: "js_div (js_sub (Finite 1) (Finite (1 / 2))) (Finite (1 / 2)) = Finite 1"
    by (simp add: js_sub_examples js_div_def fl_numeral)
  show "interpolateColor (Finite 0) = Inr [Finite 44, Finite 123, Finite 182]"
    by (simp add: interpolateColor_low zero js_mul_def js_add_def signed_zero_def fl_numeral)
  show "interpolateColor (Finite (1 / 2)) = Inr [Finite 255, Finite 255, Finite 191]"
    by (simp add: interpolateColor_low half js_mul_def js_add_def fl_numeral)
  show "interpolateColor (Finite 1) = Inr [Finite 215, Finite 25, Finite 28]"
    by (simp add: interpolateColor_high one js_mul_def js_add_def fl_numeral)
qed

lemma interpolateColor_near_exact:
  assumes "0 \<le> v" and "v \<le> 1"
  shows "\<exists>ss. interpolateColor (Finite v) = Inr (map (\<lambda>s. Finite (of_int \<lfloor>s + 1 / 2\<rfloor>)) ss)
            \<and> list_all2 (\<lambda>s t. \<bar>s - t\<bar> \<le> 1 / 2 ^ 42) ss (exact_interpolation v)"
proof (cases "v \<le> 1 / 2")
  case True
  let ?F = "(v - 0) / (1 / 2)"
  from factor_bound [of 0 v] assms True
  obtain f' where f: "finite_value (js_div (js_sub (Finite v) (Finite 0)) (Finite (1 / 2))) = Some f'"
    and fe: "\<bar>f' - ?F\<bar> \<le> pow2 (- 52)" and fb: "\<bar>f'\<bar> \<le> 1"
    by auto
  have F: "0 \<le> ?F" "?F \<le> 1" using assms True by simp_all
  note cb = channel_bound [OF f fe fb F]
  from cb [of 44 255] obtain s0 where
    s0: "Math_round (js_add (Finite 44) (js_mul (js_div (js_sub (Finite v) (Finite 0)) (Finite (1 / 2)))
           (Finite (255 - 44)))) = Finite (of_int \<lfloor>s0 + 1 / 2\<rfloor>)"
    and e0: "\<bar>s0 - (44 + ?F * (255 - 44))\<bar> \<le> pow2 (- 42)"
    by auto
  from cb [of 123 255] obtain s1 where
    s1: "Math_round (js_add (Finite 123) (js_mul (js_div (js_sub (Finite v) (Finite 0)) (Finite (1 / 2)))
           (Finite (255 - 123)))) = Finite (of_int \<lfloor>s1 + 1 / 2\<rfloor>)"
    and e1: "\<bar>s1 - (123 + ?F * (255 - 123))\<bar> \<le> pow2 (- 42)"
    by auto
  from cb [of 182 191] obtain s2 where
    s2: "Math_round (js_add (Finite 182) (js_mul (js_div (js_sub (Finite v) (Finite 0)) (Finite (1 / 2)))
           (Finite (191 - 182)))) = Finite (of_int \<lfloor>s2 + 1 / 2\<rfloor>)"
    and e2: "\<bar>s2 - (182 + ?F * (191 - 182))\<bar> \<le> pow2 (- 42)"
    by auto
  have p: "pow2 (- 42) = 1 / 2 ^ 42" by (simp add: pow2_def)
  have "interpolateColor (Finite v) = Inr (map (\<lambda>s. Finite (of_int \<lfloor>s + 1 / 2\<rfloor>)) [s0, s1, s2])"
    unfolding interpolateColor_low [OF True] Let_def s0 s1 s2 by simp
  moreover have "list_all2 (\<lambda>s t. \<bar>s - t\<bar> \<le> 1 / 2 ^ 42) [s0, s1, s2] (exact_interpolation v)"
    using True e0 e1 e2 unfolding p by (simp add: exact_interpolation_def)
  ultimately show ?thesis by blast
next
  case False
  then have gt: "1 / 2 < v" by simp
  let ?F = "(v - 1 / 2) / (1 / 2)"
  from factor_bound [of "1 / 2" v] assms gt
  obtain f' where f: "finite_value (js_div (js_sub (Finite v) (Finite (1 / 2))) (Finite (1 / 2))) = Some f'"
    and fe: "\<bar>f' - ?F\<bar> \<le> pow2 (- 52)" and fb: "\<bar>f'\<bar> \<le> 1"
    by auto
  have F: "0 \<le> ?F" "?F \<le> 1" using assms gt by simp_all
  note cb = channel_bound [OF f fe fb F]
  from cb [of 255 215] obtain s0 where
    s0: "Math_round (js_add (Finite 255) (js_mul (js_div (js_sub (Finite v) (Finite (1 / 2))) (Finite (1 / 2)))
           (Finite (215 - 255)))) = Finite (of_int \<lfloor>s0 + 1 / 2\<rfloor>)"
    and e0: "\<bar>s0 - (255 + ?F * (215 - 255))\<bar> \<le> pow2 (- 42)"
    by auto
  from cb [of 255 25] obtain s1 where
    s1: "Math_round (js_add (Finite 255) (js_mul (js_div (js_sub (Finite v) (Finite (1 / 2))) (Finite (1 / 2)))
           (Finite (25 - 255)))) = Finite (of_int \<lfloor>s1 + 1 / 2\<rfloor>)"
    and e1: "\<bar>s1 - (255 + ?F * (25 - 255))\<bar> \<le> pow2 (- 42)"
    by auto
  from cb [of 191 28] obtain s2 where
    s2: "Math_round (js_add (Finite 191) (js_mul (js_div (js_sub (Finite v) (Finite (1 / 2))) (Finite (1 / 2)))
           (Finite (28 - 191)))) = Finite (of_int \<lfloor>s2 + 1 / 2\<rfloor>)"
    and e2: "\<bar>s2 - (191 + ?F * (28 - 191))\<bar> \<le> pow2 (- 42)"
    by auto
  have p: "pow2 (- 42) = 1 / 2 ^ 42" by (simp add: pow2_def)
  have "interpolateColor (Finite v) = Inr (map (\<lambda>s. Finite (of_int \<lfloor>s + 1 / 2\<rfloor>)) [s0, s1, s2])"
    unfolding interpolateColor_high [OF gt assms(2)] Let_def s0 s1 s2 by simp
  moreover have "list_all2 (\<lambda>s t. \<bar>s - t\<bar> \<le> 1 / 2 ^ 42) [s0, s1, s2] (exact_interpolation v)"
    using False e0 e1 e2 unfolding p by (simp add: exact_interpolation_def)
  ultimately show ?thesis by blast
qed

lemma factor_at_0525:
  "js_div (js_sub (Finite (4728779608739021 / 2 ^ 53)) (Finite (1 / 2))) (Finite (1 / 2))
     = Finite (225179981368525 / 2 ^ 52)"
proof -
  have a: "fl (225179981368525 / 2 ^ 53) = Finite (225179981368525 / 2 ^ 53)"
    using fl_exact [of "225179981368525 / 2 ^ 53" 225179981368525 "- 53"]
    by (simp add: pow2_def)
  have b: "fl (225179981368525 / 2 ^ 52) = Finite (225179981368525 / 2 ^ 52)"
    using fl_exact [of "225179981368525 / 2 ^ 52" 225179981368525 "- 52"]
    by (simp add: pow2_def)
  have "js_sub (Finite (4728779608739021 / 2 ^ 53)) (Finite (1 / 2))
      = Finite (225179981368525 / 2 ^ 53)"
    using a by (simp add: js_sub_finite)
  then show ?thesis
    using b by (simp add: js_div_def)
qed

lemma roundings_at_0525:
  "fl (225179981368525 / 2 ^ 52 * (- 40)) = Finite (- (1125899906842625 / 2 ^ 49))"
  "fl (255 + - (1125899906842625 / 2 ^ 49)) = Finite 253"
  "fl (225179981368525 / 2 ^ 52 * (- 230)) = Finite (- (3236962232172547 / 2 ^ 48))"
  "fl (255 + - (3236962232172547 / 2 ^ 48)) = Finite (487 / 2)"
  "fl (225179981368525 / 2 ^ 52 * (- 163)) = Finite (- (4588042120383697 / 2 ^ 49))"
  "fl (191 + - (4588042120383697 / 2 ^ 49)) = Finite (6433462436442931 / 2 ^ 45)"
  using fl_eval [of 1 "225179981368525 / 2 ^ 52 * (- 40)"]
    fl_eval [of 7 "255 + - (1125899906842625 / 2 ^ 49)"]
    fl_eval [of 3 "225179981368525 / 2 ^ 52 * (- 230)"]
    fl_eval [of 7 "255 + - (3236962232172547 / 2 ^ 48)"]
    fl_eval [of 3 "225179981368525 / 2 ^ 52 * (- 163)"]
    fl_eval [of 7 "191 + - (4588042120383697 / 2 ^ 49)"]
  by (simp_all add: pow2_def round_ties_even_def)

text \<open>
  Claim C9, as amended. For every score \<open>v\<close> with \<open>0 \<le> v \<le> 1\<close>, \<open>interpolateColor v\<close>
  throws nothing and returns three integers: each channel is \<open>Math.round\<close> of a value
  that lies within \<open>2 ^ - 42\<close> of the exact linear interpolation between the two
  neighbouring stops \<open>0 \<mapsto> [44,123,182]\<close>, \<open>0.5 \<mapsto> [255,255,191]\<close>,
  \<open>1 \<mapsto> [215,25,28]\<close>. At \<open>v = 0\<close>, \<open>v = 0.5\<close> and \<open>v = 1\<close> it returns exactly the
  three stop colours.
\<close>

theorem interpolateColor_near_linear:
  assumes "0 \<le> v" and "v \<le> 1"
  shows "(\<exists>ss. interpolateColor (Finite v)
                 = Inr (map (\<lambda>s. Finite (of_int \<lfloor>s + 1 / 2\<rfloor>)) ss)
             \<and> list_all2 (\<lambda>s t. \<bar>s - t\<bar> \<le> 1 / 2 ^ 42) ss (exact_interpolation v))
       \<and> interpolateColor (Finite 0) = Inr [Finite 44, Finite 123, Finite 182]
       \<and> interpolateColor (Finite (1 / 2)) = Inr [Finite 255, Finite 255, Finite 191]
       \<and> interpolateColor (Finite 1) = Inr [Finite 215, Finite 25, Finite 28]"
  using interpolateColor_near_exact [OF assms] interpolateColor_stops by blast

theorem interpolateColor_near_linear_witness:
  "\<exists>ss. interpolateColor (Finite (1 / 4))
            = Inr (map (\<lambda>s. Finite (of_int \<lfloor>s + 1 / 2\<rfloor>)) ss)
        \<and> list_all2 (\<lambda>s t. \<bar>s - t\<bar> \<le> 1 / 2 ^ 42) ss [299 / 2, 189, 373 / 2 :: real]"
proof -
  have e: "exact_interpolation (1 / 4) = [299 / 2, 189, 373 / 2]"
    by (simp add: exact_interpolation_def)
  from interpolateColor_near_linear [of "1 / 4"]
  have "\<exists>ss. interpolateColor (Finite (1 / 4))
            = Inr (map (\<lambda>s. Finite (of_int \<lfloor>s + 1 / 2\<rfloor>)) ss)
        \<and> list_all2 (\<lambda>s t. \<bar>s - t\<bar> \<le> 1 / 2 ^ 42) ss (exact_interpolation (1 / 4))"
    by simp
  then show ?thesis
    unfolding e .
qed

text \<open>
  Claim C9 as stated fails at the double nearest to 0.525, which is
  \<open>4728779608739021 / 2 ^ 53\<close>: the exact interpolation of the green channel lies just
  below 243.5 and rounds to 243, while the double arithmetic of the code arrives at
  243.5 and \<open>Math.round\<close> gives 244.
\<close>

theorem interpolateColor_not_exact_counterexample:
  "interpolateColor (Finite (4728779608739021 / 2 ^ 53))
     = Inr [Finite 253, Finite 244, Finite 183]
   \<and> linear_interpolation_spec (4728779608739021 / 2 ^ 53) = [253, 243, 183]
   \<and> 0 \<le> (4728779608739021 / 2 ^ 53 :: real) \<and> (4728779608739021 / 2 ^ 53 :: real) \<le> 1"
proof -
  have "interpolateColor (Finite (4728779608739021 / 2 ^ 53))
     = Inr [Finite 253, Finite 244, Finite 183]"
    using factor_at_0525 roundings_at_0525
    by (simp add: interpolateColor_high js_mul_def js_add_def)
  moreover have "linear_interpolation_spec (4728779608739021 / 2 ^ 53) = [253, 243, 183]"
    by (simp add: linear_interpolation_spec_def exact_interpolation_def)
  ultimately show ?thesis by simp
qed

section \<open>Properties of the bivariate layers\<close>







section \<open>Properties of the aggregation\<close>

lemma join_tiles_groups:
  "fst (join_tiles cs ts g d) k =
     (let new = filter (\<lambda>t. assigned_fips cs t = Some k) ts
      in if new = [] then g k
         else Some ((case g k of None \<Rightarrow> [] | Some l \<Rightarrow> l) @ new))"
proof (induction ts arbitrary: g d)
  case Nil
  then show ?case by simp
next
  case (Cons t ts)
  show ?case
  proof (cases "enclosing_county cs t")
    case None
    then show ?thesis by (simp add: Cons.IH assigned_fips_def)
  next
    case (Some c)
    then show ?thesis
      by (simp add: Cons.IH assigned_fips_def Let_def split: option.splits)
  qed
qed

lemma spatial_join_groups:
  "fst (spatial_join cs ts) k =
     (let new = filter (\<lambda>t. assigned_fips cs t = Some k) ts
      in if new = [] then None else Some new)"
  by (simp add: spatial_join_def join_tiles_groups Let_def)

lemma join_tiles_dropped:
  "snd (join_tiles cs ts g d) = d + length (filter (\<lambda>t. enclosing_county cs t = None) ts)"
  by (induction ts arbitrary: g d) (auto split: option.splits)

lemma aggregate_feature:
  assumes "f \<in> set (aggregate st cv tiles counties)"
  obtains c where "c \<in> set counties" and "boundary c \<noteq> None"
    and "filter (\<lambda>t. assigned_fips counties t = Some (fips_code c)) tiles \<noteq> []"
    and "f = score_county st cv c (filter (\<lambda>t. assigned_fips counties t = Some (fips_code c)) tiles)"
  using assms
  by (auto simp: aggregate_def map_filter_def export_county_def spatial_join_groups Let_def
      split: option.splits if_splits)

lemma score_county_fields:
  "fips_code (score_county st cv c ts) = fips_code c"
  "name (score_county st cv c ts) = name c"
  "boundary (score_county st cv c ts) = boundary c"
  "tile_count (score_county st cv c ts) = length ts"
  "obsolescence_score (score_county st cv c ts) = obsolescence_of st ts"
  "growth_potential_score (score_county st cv c ts) = growth_potential_of st cv ts"
  by (simp_all add: score_county_def Let_def county.defs feature.defs)

lemma tile_count_first_match:
  assumes "f \<in> set (aggregate st cv tiles counties)"
  shows "tile_count f = length (filter (\<lambda>t. assigned_fips counties t = Some (fips_code f)) tiles)"
  using assms by (elim aggregate_feature) (simp add: score_county_fields)

lemma enclosing_county_SomeD:
  assumes "enclosing_county counties t = Some c"
  shows "c \<in> set counties \<and> contains c t"
  using assms unfolding enclosing_county_def find_Some_iff by auto

lemma enclosing_county_NoneD:
  assumes "enclosing_county counties t = None" and "c \<in> set counties"
  shows "\<not> contains c t"
  using assms unfolding enclosing_county_def find_None_iff by auto

lemma contains_score_county [simp]:
  "contains (score_county st cv c ts) t = contains c t"
  by (simp add: contains_def score_county_fields)


lemma zero_tiles_omitted:
  assumes none: "\<forall>c \<in> set counties. fips_code c = k \<longrightarrow> (\<forall>t \<in> set tiles. \<not> contains c t)"
  shows "\<forall>f \<in> set (aggregate st cv tiles counties). fips_code f \<noteq> k"
proof
  fix f assume f: "f \<in> set (aggregate st cv tiles counties)"
  from f obtain c where c: "c \<in> set counties"
    and ne: "filter (\<lambda>t. assigned_fips counties t = Some (fips_code c)) tiles \<noteq> []"
    and fc: "f = score_county st cv c (filter (\<lambda>t. assigned_fips counties t = Some (fips_code c)) tiles)"
    by (elim aggregate_feature)
  from ne obtain t where t: "t \<in> set tiles" and a: "assigned_fips counties t = Some (fips_code c)"
    by (auto simp: filter_empty_conv)
  from a obtain c' where e: "enclosing_county counties t = Some c'" and k: "fips_code c' = fips_code c"
    by (auto simp: assigned_fips_def)
  from enclosing_county_SomeD [OF e] have c': "c' \<in> set counties" "contains c' t" by simp_all
  show "fips_code f \<noteq> k"
  proof
    assume "fips_code f = k"
    with fc k have "fips_code c' = k" by (simp add: score_county_fields)
    with none c' t show False by blast
  qed
qed

lemma clip01_bounds: "0 \<le> clip01 x \<and> clip01 x \<le> 1"
  by (simp add: clip01_def)

lemma scores_in_unit_interval:
  assumes "f \<in> set (aggregate st cv tiles counties)"
  shows "0 \<le> obsolescence_score f \<and> obsolescence_score f \<le> 1
       \<and> 0 \<le> growth_potential_score f \<and> growth_potential_score f \<le> 1"
  using assms
  by (elim aggregate_feature)
     (simp add: score_county_fields obsolescence_of_def growth_potential_of_def clip01_bounds)

lemma mean_const:
  assumes "xs \<noteq> []" and "\<forall>x \<in> set xs. x = a"
  shows "mean xs = a"
proof -
  from assms(2) have "xs = replicate (length xs) a"
    by (simp add: replicate_length_same)
  then have "sum_list xs = real (length xs) * a"
    by (metis sum_list_replicate)
  with assms(1) show ?thesis by (simp add: mean_def)
qed

lemma obsolescence_example:
  assumes "ts \<noteq> []"
    and "\<forall>t \<in> set ts. ndbi t = 8 / 10 \<and> ndvi t = 2 / 10 \<and> ui t = 5 / 10"
  shows "obsolescence_of settings_yaml ts = 74 / 100"
proof -
  have a: "mean (map ndbi ts) = 8 / 10"
    using assms by (intro mean_const) auto
  have b: "mean (map (\<lambda>t. 1 - ndvi t) ts) = 8 / 10"
    using assms by (intro mean_const) auto
  have c: "mean (map ui ts) = 5 / 10"
    using assms by (intro mean_const) auto
  show ?thesis
    by (simp add: obsolescence_of_def a b c settings_yaml_def clip01_def)
qed

lemma aggregate_featureI:
  assumes "c \<in> set counties" and "boundary c \<noteq> None"
    and "filter (\<lambda>t. assigned_fips counties t = Some (fips_code c)) tiles \<noteq> []"
  shows "score_county st cv c (filter (\<lambda>t. assigned_fips counties t = Some (fips_code c)) tiles)
           \<in> set (aggregate st cv tiles counties)"
proof -
  let ?ts = "filter (\<lambda>t. assigned_fips counties t = Some (fips_code c)) tiles"
  have "export_county st cv (fst (spatial_join counties tiles)) c = Some (score_county st cv c ?ts)"
    using assms(2,3) by (auto simp: export_county_def spatial_join_groups Let_def)
  with assms(1) show ?thesis
    by (force simp: aggregate_def map_filter_def)
qed



text \<open>
  Claim C2. A county with no input tile inside its boundary is left out of the output
  rather than given a default score: when no input tile falls within any polygon
  carrying FIPS code \<open>k\<close>, no output feature carries \<open>k\<close>. With \<open>k = 99999\<close> and no
  tile in that county, no feature 99999 appears.
\<close>

theorem county_without_tiles_omitted:
  assumes "\<forall>c \<in> set counties. fips_code c = k \<longrightarrow> (\<forall>t \<in> set tiles. \<not> contains c t)"
  shows "\<forall>f \<in> set (aggregate st cv tiles counties). fips_code f \<noteq> k"
  using assms by (rule zero_tiles_omitted)

theorem county_without_tiles_omitted_witness:
  "square_county ''99999'' ''Z'' 5
     \<in> set [square_county ''12345'' ''A'' 0, square_county ''99999'' ''Z'' 5]
   \<and> list_all (\<lambda>f. fips_code f \<noteq> ''99999'')
       (aggregate settings_yaml sample_conventions
          [sample_tile ''t1'' (1 / 4) (1 / 2), sample_tile ''t2'' (1 / 2) (1 / 2)]
          [square_county ''12345'' ''A'' 0, square_county ''99999'' ''Z'' 5])
   \<and> map fips_code
       (aggregate settings_yaml sample_conventions
          [sample_tile ''t1'' (1 / 4) (1 / 2), sample_tile ''t2'' (1 / 2) (1 / 2)]
          [square_county ''12345'' ''A'' 0, square_county ''99999'' ''Z'' 5])
     = [''12345'']"
proof -
  let ?tiles = "[sample_tile ''t1'' (1 / 4) (1 / 2), sample_tile ''t2'' (1 / 2) (1 / 2)]"
  let ?counties = "[square_county ''12345'' ''A'' 0, square_county ''99999'' ''Z'' 5]"
  have h: "\<forall>c \<in> set ?counties. fips_code c = ''99999'' \<longrightarrow> (\<forall>t \<in> set ?tiles. \<not> contains c t)"
    by (simp add: square_county_def sample_tile_def contains_def)
  have a: "list_all (\<lambda>f. fips_code f \<noteq> ''99999'')
       (aggregate settings_yaml sample_conventions ?tiles ?counties)"
    using county_without_tiles_omitted [OF h, of settings_yaml sample_conventions]
    unfolding list_all_iff .
  have e: "map fips_code (aggregate settings_yaml sample_conventions ?tiles ?counties) = [''12345'']"
    by (simp add: aggregate_def map_filter_def export_county_def spatial_join_def
      enclosing_county_def contains_def square_county_def sample_tile_def
      score_county_def Let_def county.defs feature.defs)
  from a e show ?thesis by simp
qed


text \<open>
  Claim C3. For every county feature in the aggregation output both scores lie in the
  unit interval; each is the weighted sum of its three county-level indices under the
  configured weights, clipped to the unit interval.
\<close>

theorem scores_clipped_to_unit_interval:
  "\<forall>f \<in> set (aggregate st cv tiles counties).
     0 \<le> obsolescence_score f \<and> obsolescence_score f \<le> 1
   \<and> 0 \<le> growth_potential_score f \<and> growth_potential_score f \<le> 1
   \<and> obsolescence_score f
       = clip01 (ow_built_up st * mean (map ndbi (tiles_of counties tiles (fips_code f)))
               + ow_veg_health st
                   * mean (map (\<lambda>t. 1 - ndvi t) (tiles_of counties tiles (fips_code f)))
               + ow_urban_index st * mean (map ui (tiles_of counties tiles (fips_code f))))
   \<and> growth_potential_score f
       = clip01 (gw_veg_health st
                   * mean (map (growth_veg_health cv) (tiles_of counties tiles (fips_code f)))
               + gw_built_up_potential st
                   * mean (map (built_up_potential cv) (tiles_of counties tiles (fips_code f)))
               + gw_water_availability st
                   * mean (map (water_availability cv) (tiles_of counties tiles (fips_code f))))"
proof
  fix f assume f: "f \<in> set (aggregate st cv tiles counties)"
  from f obtain c where
    fc: "f = score_county st cv c (filter (\<lambda>t. assigned_fips counties t = Some (fips_code c)) tiles)"
    by (elim aggregate_feature)
  have k: "fips_code f = fips_code c"
    by (simp add: fc score_county_fields)
  have ts: "tiles_of counties tiles (fips_code f)
      = filter (\<lambda>t. assigned_fips counties t = Some (fips_code c)) tiles"
    by (simp add: tiles_of_def k)
  have ob: "obsolescence_score f = obsolescence_of st (tiles_of counties tiles (fips_code f))"
    unfolding ts by (simp add: fc score_county_fields)
  have gr: "growth_potential_score f
      = growth_potential_of st cv (tiles_of counties tiles (fips_code f))"
    unfolding ts by (simp add: fc score_county_fields)
  show "0 \<le> obsolescence_score f \<and> obsolescence_score f \<le> 1
   \<and> 0 \<le> growth_potential_score f \<and> growth_potential_score f \<le> 1
   \<and> obsolescence_score f
       = clip01 (ow_built_up st * mean (map ndbi (tiles_of counties tiles (fips_code f)))
               + ow_veg_health st
                   * mean (map (\<lambda>t. 1 - ndvi t) (tiles_of counties tiles (fips_code f)))
               + ow_urban_index st * mean (map ui (tiles_of counties tiles (fips_code f))))
   \<and> growth_potential_score f
       = clip01 (gw_veg_health st
                   * mean (map (growth_veg_health cv) (tiles_of counties tiles (fips_code f)))
               + gw_built_up_potential st
                   * mean (map (built_up_potential cv) (tiles_of counties tiles (fips_code f)))
               + gw_water_availability st
                   * mean (map (water_availability cv) (tiles_of counties tiles (fips_code f))))"
    using scores_in_unit_interval [OF f] ob gr
    by (simp add: obsolescence_of_def growth_potential_of_def)
qed

text \<open>A tile far outside the index range shows the clipping at work.\<close>

theorem scores_clipped_to_unit_interval_witness:
  "map obsolescence_score
     (aggregate settings_yaml sample_conventions
        [(sample_tile ''t1'' (1 / 2) (1 / 2))\<lparr>ndbi := 3, ui := 2\<rparr>,
         (sample_tile ''t2'' (5 / 2) (1 / 2))\<lparr>ndvi := 1, ndbi := - 1, ui := - 1\<rparr>]
        [square_county ''12345'' ''A'' 0, square_county ''12346'' ''B'' 2])
     = [1, 0]
   \<and> list_all (\<lambda>f. 0 \<le> obsolescence_score f \<and> obsolescence_score f \<le> 1
                \<and> 0 \<le> growth_potential_score f \<and> growth_potential_score f \<le> 1)
     (aggregate settings_yaml sample_conventions
        [(sample_tile ''t1'' (1 / 2) (1 / 2))\<lparr>ndbi := 3, ui := 2\<rparr>,
         (sample_tile ''t2'' (5 / 2) (1 / 2))\<lparr>ndvi := 1, ndbi := - 1, ui := - 1\<rparr>]
        [square_county ''12345'' ''A'' 0, square_county ''12346'' ''B'' 2])"
proof -
  let ?tiles = "[(sample_tile ''t1'' (1 / 2) (1 / 2))\<lparr>ndbi := 3, ui := 2\<rparr>,
         (sample_tile ''t2'' (5 / 2) (1 / 2))\<lparr>ndvi := 1, ndbi := - 1, ui := - 1\<rparr>]"
  let ?counties = "[square_county ''12345'' ''A'' 0, square_county ''12346'' ''B'' 2]"
  have a: "list_all (\<lambda>f. 0 \<le> obsolescence_score f \<and> obsolescence_score f \<le> 1
                \<and> 0 \<le> growth_potential_score f \<and> growth_potential_score f \<le> 1)
     (aggregate settings_yaml sample_conventions ?tiles ?counties)"
    using scores_clipped_to_unit_interval [of settings_yaml sample_conventions ?tiles ?counties]
    unfolding list_all_iff by blast
  have e: "map obsolescence_score (aggregate settings_yaml sample_conventions ?tiles ?counties)
      = [1, 0]"
    by (simp add: aggregate_def map_filter_def export_county_def spatial_join_def
      enclosing_county_def contains_def square_county_def sample_tile_def
      score_county_def Let_def county.defs feature.defs obsolescence_of_def mean_def
      clip01_def settings_yaml_def)
  from a e show ?thesis by simp
qed

lemma inside_assigned:
  assumes "\<exists>c \<in> set counties. contains c t"
    and "\<forall>c \<in> set counties. contains c t \<longrightarrow> fips_code c = k"
  shows "assigned_fips counties t = Some k"
proof (cases "enclosing_county counties t")
  case None
  with assms(1) show ?thesis
    using enclosing_county_NoneD by blast
next
  case (Some c)
  from enclosing_county_SomeD [OF Some] assms(2) have "fips_code c = k" by blast
  with Some show ?thesis by (simp add: assigned_fips_def)
qed

text \<open>
  Claim C5. With the obsolescence weights of \<open>settings.yaml\<close> (built-up 0.4,
  vegetation health 0.4, urban index 0.2) and vegetation health taken as one minus
  NDVI, three tiles with \<open>ndbi = 0.8\<close>, \<open>ndvi = 0.2\<close>, \<open>ui = 0.5\<close>, all inside
  county 12345 (each lies in a county polygon, and every polygon it lies in is county
  12345), give that county the obsolescence score
  \<open>0.4 * 0.8 + 0.4 * (1 - 0.2) + 0.2 * 0.5 = 0.74\<close>.
\<close>

theorem obsolescence_worked_example:
  assumes three: "length tiles = 3"
    and vals: "\<forall>t \<in> set tiles. ndbi t = 8 / 10 \<and> ndvi t = 2 / 10 \<and> ui t = 5 / 10"
    and ins: "\<forall>t \<in> set tiles. (\<exists>c \<in> set counties. contains c t)
                   \<and> (\<forall>c \<in> set counties. contains c t \<longrightarrow> fips_code c = ''12345'')"
  shows "(\<exists>f \<in> set (aggregate settings_yaml cv tiles counties). fips_code f = ''12345'')
       \<and> (\<forall>f \<in> set (aggregate settings_yaml cv tiles counties).
            fips_code f = ''12345'' \<longrightarrow>
              obsolescence_score f = 4 / 10 * (8 / 10) + 4 / 10 * (1 - 2 / 10) + 2 / 10 * (5 / 10)
            \<and> obsolescence_score f = 74 / 100)"
proof -
  let ?k = "''12345''"
  have asg: "assigned_fips counties t = Some ?k" if "t \<in> set tiles" for t
    using ins that by (intro inside_assigned) auto
  then have all: "filter (\<lambda>t. assigned_fips counties t = Some ?k) tiles = tiles"
    by (simp add: filter_id_conv)
  from three have ne: "tiles \<noteq> []" by auto
  have score: "obsolescence_of settings_yaml tiles = 74 / 100"
    using ne vals by (rule obsolescence_example)
  from ne obtain t where t: "t \<in> set tiles" by (cases tiles) auto
  from asg [OF t] obtain c where e: "enclosing_county counties t = Some c"
    and k: "fips_code c = ?k"
    by (auto simp: assigned_fips_def)
  from enclosing_county_SomeD [OF e] have c: "c \<in> set counties" "contains c t" by simp_all
  from c(2) have b: "boundary c \<noteq> None"
    by (auto simp: contains_def split: option.splits)
  have "score_county settings_yaml cv c (filter (\<lambda>t. assigned_fips counties t = Some (fips_code c)) tiles)
           \<in> set (aggregate settings_yaml cv tiles counties)"
    using c(1) b ne by (intro aggregate_featureI) (simp_all add: k all)
  then have ex: "\<exists>f \<in> set (aggregate settings_yaml cv tiles counties). fips_code f = ?k"
    by (rule rev_bexI) (simp add: score_county_fields k)
  have val: "obsolescence_score f = 74 / 100"
    if f: "f \<in> set (aggregate settings_yaml cv tiles counties)" and fk: "fips_code f = ?k" for f
  proof -
    from f obtain c' where
      fc: "f = score_county settings_yaml cv c'
                 (filter (\<lambda>t. assigned_fips counties t = Some (fips_code c')) tiles)"
      by (elim aggregate_feature)
    from fk have "fips_code c' = ?k" by (simp add: fc score_county_fields)
    then have "f = score_county settings_yaml cv c' tiles" using fc all by simp
    then show ?thesis by (simp add: score_county_fields score)
  qed
  from ex val show ?thesis by simp
qed

theorem obsolescence_worked_example_witness:
  "map (\<lambda>f. (fips_code f, obsolescence_score f))
     (aggregate settings_yaml sample_conventions
        [sample_tile ''t1'' (1 / 4) (1 / 2), sample_tile ''t2'' (1 / 2) (1 / 2),
         sample_tile ''t3'' (3 / 4) (1 / 4)]
        [square_county ''12345'' ''A'' 0, square_county ''12346'' ''B'' 2])
     = [(''12345'', 74 / 100)]"
proof -
  let ?tiles = "[sample_tile ''t1'' (1 / 4) (1 / 2), sample_tile ''t2'' (1 / 2) (1 / 2),
         sample_tile ''t3'' (3 / 4) (1 / 4)]"
  let ?counties = "[square_county ''12345'' ''A'' 0, square_county ''12346'' ''B'' 2]"
  have three: "length ?tiles = 3" by simp
  have vals: "\<forall>t \<in> set ?tiles. ndbi t = 8 / 10 \<and> ndvi t = 2 / 10 \<and> ui t = 5 / 10"
    by (simp add: sample_tile_def)
  have ins: "\<forall>t \<in> set ?tiles. (\<exists>c \<in> set ?counties. contains c t)
                   \<and> (\<forall>c \<in> set ?counties. contains c t \<longrightarrow> fips_code c = ''12345'')"
    by (simp add: sample_tile_def square_county_def contains_def)
  have ids: "map fips_code (aggregate settings_yaml sample_conventions ?tiles ?counties)
      = [''12345'']"
    by (simp add: aggregate_def map_filter_def export_county_def spatial_join_def
      enclosing_county_def contains_def square_county_def sample_tile_def
      score_county_def Let_def county.defs feature.defs)
  then obtain f where agg: "aggregate settings_yaml sample_conventions ?tiles ?counties = [f]"
    and fk: "fips_code f = ''12345''"
    by auto
  from obsolescence_worked_example [OF three vals ins, of sample_conventions] agg fk
  have "obsolescence_score f = 74 / 100" by simp
  with agg fk show ?thesis by simp
qed

section \<open>Properties of the shell scripts\<close>

lemma echo_simps [simp]:
  "files (echo l s) = files s"
  "trace (echo l s) = trace s"
  "stdout (echo l s) = stdout s @ [l]"
  "status (echo l s) = 0"
  by (simp_all add: echo_def)

lemma echo_lines_Nil [simp]: "echo_lines [] s = s"
  by (simp add: echo_lines_def)

lemma echo_lines_Cons [simp]: "echo_lines (l # ls) s = echo_lines ls (echo l s)"
  by (simp add: echo_lines_def)

lemma run_simps [simp]:
  "files (run tools cmd s) = snd (tools cmd (files s))"
  "trace (run tools cmd s) = trace s @ [cmd]"
  "stdout (run tools cmd s) = stdout s"
  "status (run tools cmd s) = fst (tools cmd (files s))"
  by (simp_all add: run_def split: prod.splits)

lemma process_region_skip:
  assumes "files s (TILE_SCORES region) = None"
  shows "files (process_region tools region s) = files s"
    and "trace (process_region tools region s) = trace s"
    and "stdout (process_region tools region s)
          = stdout s @ [''=========================================='',
                        ''Processing region: '' @ region,
                        ''=========================================='',
                        ''Tile scores file not found: '' @ TILE_SCORES region,
                        ''Skipping region: '' @ region]"
  using assms by (simp_all add: process_region_def Let_def)

text \<open>
  Claim C6, as amended. In \<open>aggregate_counties.sh\<close> a missing tile-scores file is not
  fatal. The region is reported and skipped: no tool is run for it and no file
  changes. The run does not abort: the body of the loop is executed for \<open>south\<close>,
  \<open>west\<close> and \<open>east\<close> in turn, and the run ends after its closing message with exit
  status 0.
\<close>

theorem missing_tile_scores_not_fatal:
  "exit_status (aggregate_counties tools s) = 0
   \<and> aggregate_counties tools s
     = Continue
         (echo ''Aggregation completed successfully for all regions!''
            (process_region tools ''east''
               (process_region tools ''west''
                  (process_region tools ''south''
                     (run tools (Source ''loghub_env/bin/activate'') s)))))
   \<and> (files s (TILE_SCORES region) = None \<longrightarrow>
        files (process_region tools region s) = files s
      \<and> trace (process_region tools region s) = trace s
      \<and> stdout (process_region tools region s)
          = stdout s @ [''=========================================='',
                        ''Processing region: '' @ region,
                        ''=========================================='',
                        ''Tile scores file not found: '' @ TILE_SCORES region,
                        ''Skipping region: '' @ region])"
  by (simp add: process_region_skip aggregate_counties_def exit_status_def Let_def
      REGIONS_def)

lemma aggregation_args:
  "arg_value ''--tile-scores''
     [''--tile-scores'', TILE_SCORES region, ''--county-shp'', COUNTY_SHP,
      ''--output'', OUTPUT region, ''--visualize''] = Some (TILE_SCORES region)"
  "arg_value ''--county-shp''
     [''--tile-scores'', TILE_SCORES region, ''--county-shp'', COUNTY_SHP,
      ''--output'', OUTPUT region, ''--visualize''] = Some COUNTY_SHP"
  "arg_value ''--output''
     [''--tile-scores'', TILE_SCORES region, ''--county-shp'', COUNTY_SHP,
      ''--output'', OUTPUT region, ''--visualize''] = Some (OUTPUT region)"
  by (simp_all add: TILE_SCORES_def COUNTY_SHP_def OUTPUT_def)

lemma sample_tools_aggregation:
  "sample_tools st cv v (aggregation_command region) fs =
     (case fs (TILE_SCORES region) of
        Some (Tile_scores tiles) \<Rightarrow>
          (case fs COUNTY_SHP of
             Some (County_shp counties) \<Rightarrow>
               (0, fs(OUTPUT region \<mapsto> County_geojson (aggregate st cv tiles counties)))
           | _ \<Rightarrow> (1, fs))
      | _ \<Rightarrow> (1, fs))"
  by (simp add: sample_tools_def aggregation_command_def aggregate_tiles_to_counties_def
      aggregation_args del: arg_value.simps)

lemma sample_tools_source [simp]:
  "sample_tools st cv v (Source p) fs = (0, fs)"
  by (simp add: sample_tools_def)

text \<open>
  Claim C6 as stated fails on a file system holding the tile scores of \<open>west\<close> only:
  \<open>south\<close> and \<open>east\<close> are skipped, \<open>west\<close> is aggregated, and the exit status is 0.
\<close>

theorem missing_tile_scores_fatal_counterexample:
  "files (initial sample_files) (TILE_SCORES ''south'') = None
   \<and> exit_status (aggregate_counties (sample_tools settings_yaml sample_conventions 0)
        (initial sample_files)) = 0
   \<and> trace (final (aggregate_counties (sample_tools settings_yaml sample_conventions 0)
        (initial sample_files)))
      = [Source ''loghub_env/bin/activate'', aggregation_command ''west'']
   \<and> last (stdout (final (aggregate_counties (sample_tools settings_yaml sample_conventions 0)
        (initial sample_files))))
      = ''Aggregation completed successfully for all regions!''"
  by (simp add: aggregate_counties_def exit_status_def final_def Let_def REGIONS_def
      process_region_def initial_def sample_files_def sample_tools_aggregation
      TILE_SCORES_def COUNTY_SHP_def OUTPUT_def)

theorem missing_tile_scores_not_fatal_witness:
  "exit_status (aggregate_counties (sample_tools settings_yaml sample_conventions 0)
      (initial sample_files)) = 0
   \<and> files (process_region (sample_tools settings_yaml sample_conventions 0) ''south''
      (initial sample_files)) = sample_files
   \<and> trace (process_region (sample_tools settings_yaml sample_conventions 0) ''south''
      (initial sample_files)) = []
   \<and> stdout (process_region (sample_tools settings_yaml sample_conventions 0) ''south''
      (initial sample_files))
     = [''=========================================='',
        ''Processing region: south'',
        ''=========================================='',
        ''Tile scores file not found: data/south/tile_scores.csv'',
        ''Skipping region: south'']"
proof -
  let ?T = "sample_tools settings_yaml sample_conventions 0"
  have missing: "files (initial sample_files) (TILE_SCORES ''south'') = None"
    by (simp add: initial_def sample_files_def TILE_SCORES_def COUNTY_SHP_def)
  have i: "files (initial sample_files) = sample_files" "trace (initial sample_files) = []"
    "stdout (initial sample_files) = []"
    by (simp_all add: initial_def)
  note w = missing_tile_scores_not_fatal [of ?T "initial sample_files" "''south''"]
  from w have a: "exit_status (aggregate_counties ?T (initial sample_files)) = 0"
    by blast
  from w missing have b: "files (process_region ?T ''south'' (initial sample_files))
      = files (initial sample_files)"
    and c: "trace (process_region ?T ''south'' (initial sample_files))
      = trace (initial sample_files)"
    and d: "stdout (process_region ?T ''south'' (initial sample_files))
      = stdout (initial sample_files)
        @ [''=========================================='',
           ''Processing region: '' @ ''south'',
           ''=========================================='',
           ''Tile scores file not found: '' @ TILE_SCORES ''south'',
           ''Skipping region: '' @ ''south'']"
    by blast+
  from a b c d show ?thesis
    by (simp add: i TILE_SCORES_def)
qed

lemma banner_simps [simp]:
  "files (banner t s) = files s"
  "trace (banner t s) = trace s"
  "status (banner t s) = 0"
  by (simp_all add: banner_def)

lemma mkdir_p_simps [simp]:
  "files (mkdir_p d s) = files s"
  "trace (mkdir_p d s) = trace s"
  "stdout (mkdir_p d s) = stdout s"
  by (simp_all add: mkdir_p_def)

lemma echo_lines_frame [simp]:
  "files (echo_lines ls s) = files s"
  "trace (echo_lines ls s) = trace s"
  by (induction ls arbitrary: s) simp_all

lemma phase2_visualizations_trace:
  "trace (phase2_visualizations tools s)
     = trace s @ [Source ''loghub_env/bin/activate'', static_map_command,
                  interactive_map_command, confidence_map_command, export_command]"
  by (simp add: phase2_visualizations_def Let_def)

text \<open>
  Claim C7, as amended. In \<open>phase2_complete.sh\<close> the GeoJSON is exported by step 4,
  before the validation runs and whatever its result: the validation never blocks
  writing the output. The validation's exit status is a gate for the rest of the run,
  though: when it is not zero the script prints its error and ends with \<open>exit 1\<close>,
  running nothing further; when it is zero the run goes on and ends with status 0.
\<close>

theorem validation_gates_the_run:
  "trace (phase2_validation tools s)
     = trace s @ [Source ''loghub_env/bin/activate'', static_map_command,
                  interactive_map_command, confidence_map_command, export_command,
                  validation_command]
   \<and> files (phase2_validation tools s)
     = snd (tools validation_command (files (phase2_visualizations tools s)))
   \<and> (status (phase2_validation tools s) \<noteq> 0 \<longrightarrow>
        exit_status (phase2_complete tools reply s) = 1
      \<and> phase2_complete tools reply s
          = Exit ((echo ''Error: Data validation failed. Please check the validation report.''
                     (phase2_validation tools s))\<lparr>status := 1\<rparr>)
      \<and> files (final (phase2_complete tools reply s)) = files (phase2_validation tools s)
      \<and> trace (final (phase2_complete tools reply s)) = trace (phase2_validation tools s))
   \<and> (status (phase2_validation tools s) = 0 \<longrightarrow>
        exit_status (phase2_complete tools reply s) = 0
      \<and> phase2_complete tools reply s = Continue (final (phase2_complete tools reply s)))"
  by (simp add: phase2_complete_def phase2_validation_def phase2_visualizations_trace
      exit_status_def final_def Let_def)

lemma sample_tools_python:
  "script \<noteq> ''tools/aggregate_tiles_to_counties.py'' \<Longrightarrow>
   script \<noteq> ''tools/validate_data.py'' \<Longrightarrow>
   sample_tools st cv v (Python script args) fs
     = (0, write_arg ''--export-geojson'' (Feature_collection mock_features) args
             (write_arg ''--output'' (Other script) args fs))"
  "sample_tools st cv v (Python ''tools/validate_data.py'' args) fs
     = (v, write_arg ''--output'' (Other ''validation report'') args fs)"
  by (simp_all add: sample_tools_def)

lemma sample_tools_export:
  "snd (sample_tools st cv v export_command fs) COMBINED_GEOJSON
     = Some (Feature_collection mock_features)"
  by (simp add: export_command_def sample_tools_python write_arg_def
      COMBINED_GEOJSON_def OUTPUT_DIR_def COUNTY_SHP_def)

lemma sample_tools_validation:
  "fst (sample_tools st cv v validation_command fs) = v"
  "snd (sample_tools st cv v validation_command fs) COMBINED_GEOJSON = fs COMBINED_GEOJSON"
  by (simp_all add: validation_command_def sample_tools_python write_arg_def
      COMBINED_GEOJSON_def VALIDATION_DIR_def)

lemma phase2_visualizations_files:
  "files (phase2_visualizations tools s)
     = snd (tools export_command
         (snd (tools confidence_map_command
           (snd (tools interactive_map_command
             (snd (tools static_map_command
               (snd (tools (Source ''loghub_env/bin/activate'') (files s))))))))))"
  by (simp add: phase2_visualizations_def Let_def)

text \<open>
  Claim C7 as stated fails when the validator exits with status 1: the output file has
  been written, and the run is aborted with exit status 1 right after the validation.
\<close>

theorem validation_failure_aborts_counterexample:
  "exit_status (phase2_complete (sample_tools settings_yaml sample_conventions 1) ''y''
      (initial Map.empty)) = 1
   \<and> files (final (phase2_complete (sample_tools settings_yaml sample_conventions 1) ''y''
      (initial Map.empty))) COMBINED_GEOJSON = Some (Feature_collection mock_features)
   \<and> last (trace (final (phase2_complete (sample_tools settings_yaml sample_conventions 1) ''y''
      (initial Map.empty)))) = validation_command
   \<and> last (stdout (final (phase2_complete (sample_tools settings_yaml sample_conventions 1) ''y''
      (initial Map.empty))))
     = ''Error: Data validation failed. Please check the validation report.''"
  by (simp add: phase2_complete_def phase2_validation_def phase2_visualizations_trace
      phase2_visualizations_files sample_tools_validation sample_tools_export
      exit_status_def final_def Let_def)

theorem validation_gates_the_run_witness:
  "exit_status (phase2_complete (sample_tools settings_yaml sample_conventions 1) ''y''
      (initial Map.empty)) = 1
   \<and> trace (final (phase2_complete (sample_tools settings_yaml sample_conventions 1) ''y''
      (initial Map.empty)))
     = [Source ''loghub_env/bin/activate'', static_map_command,
        interactive_map_command, confidence_map_command, export_command,
        validation_command]
   \<and> exit_status (phase2_complete (sample_tools settings_yaml sample_conventions 0) ''n''
      (initial Map.empty)) = 0"
proof -
  let ?bad = "sample_tools settings_yaml sample_conventions 1"
  let ?good = "sample_tools settings_yaml sample_conventions 0"
  have bad: "status (phase2_validation ?bad (initial Map.empty)) \<noteq> 0"
    by (simp add: phase2_validation_def sample_tools_validation)
  have good: "status (phase2_validation ?good (initial Map.empty)) = 0"
    by (simp add: phase2_validation_def sample_tools_validation)
  have t: "trace (initial Map.empty) = []"
    by (simp add: initial_def)
  note b = validation_gates_the_run [of ?bad "initial Map.empty" "''y''"]
  note g = validation_gates_the_run [of ?good "initial Map.empty" "''n''"]
  from b bad have b1: "exit_status (phase2_complete ?bad ''y'' (initial Map.empty)) = 1"
    by blast
  from b bad have "trace (final (phase2_complete ?bad ''y'' (initial Map.empty)))
      = trace (phase2_validation ?bad (initial Map.empty))"
    by blast
  also from b have "\<dots> = trace (initial Map.empty)
      @ [Source ''loghub_env/bin/activate'', static_map_command,
         interactive_map_command, confidence_map_command, export_command,
         validation_command]"
    by blast
  finally have b2: "trace (final (phase2_complete ?bad ''y'' (initial Map.empty)))
      = [Source ''loghub_env/bin/activate'', static_map_command,
         interactive_map_command, confidence_map_command, export_command,
         validation_command]"
    by (simp add: t)
  from g good have g1: "exit_status (phase2_complete ?good ''n'' (initial Map.empty)) = 0"
    by blast
  from b1 b2 g1 show ?thesis by blast
qed

lemma cp_frame:
  "dst \<noteq> p \<Longrightarrow> files (cp src dst s) p = files s p"
  "trace (cp src dst s) = trace s"
  by (simp_all add: cp_def split: option.splits)

lemma batch_loop_done:
  assumes "get_remaining_count (files s) = Some 0" and "batch_num \<le> MAX_BATCHES"
  shows "batch_loop tools batch_num s
           = Continue (batch_num, echo ''All counties have been processed!'' s)"
  using assms by (subst batch_loop.simps) simp

lemma process_all_remaining_done:
  assumes "get_remaining_count (files s) = Some 0"
  shows "process_all_remaining tools s
           = Continue
              (echo_lines
                 [''Processing complete!'',
                  ''Processed '' @ string_of_nat (MAX_BATCHES * BATCH_SIZE) @ '' counties in ''
                    @ string_of_nat 0 @ '' batches'']
                 (echo ''All counties have been processed!'' s))"
  using assms by (simp add: process_all_remaining_def batch_loop_done MAX_BATCHES_def)

lemma batch_loop_frame:
  "\<forall>fs. snd (tools batch_command fs) OUTPUT_FILE = fs OUTPUT_FILE \<Longrightarrow>
   files (loop_state (batch_loop tools batch_num s)) OUTPUT_FILE = files s OUTPUT_FILE"
proof (induction tools batch_num s rule: batch_loop.induct)
  case (1 tools batch_num s)
  note tool = "1.prems"
  show ?case
  proof (cases "batch_num \<le> MAX_BATCHES")
    case False
    then show ?thesis
      by (subst batch_loop.simps) (simp add: loop_state_def)
  next
    case le: True
    show ?thesis
    proof (cases "get_remaining_count (files s) = Some 0")
      case True
      with le show ?thesis
        by (simp add: batch_loop_done loop_state_def)
    next
      case nz: False
      define s1 where "s1 = echo (''Batch '' @ string_of_nat batch_num @ '': Processing ''
                              @ string_of_nat BATCH_SIZE @ '' counties (''
                              @ (case get_remaining_count (files s) of
                                   None \<Rightarrow> []
                                 | Some n \<Rightarrow> string_of_nat n)
                              @ '' remaining)'') s"
      define s2 where "s2 = run tools batch_command s1"
      define s3 where "s3 = cp OUTPUT_FILE
                                (''county-viz-app/public/data/final/''
                                   @ ''fixed_county_scores.geojson'')
                                (mkdir_p ''county-viz-app/public/data/final/'' s2)"
      define s4 where "s4 = echo_lines
                                [''Batch '' @ string_of_nat batch_num @ '' complete!'',
                                 ''Waiting 30 seconds before starting the next batch...''] s3"
      have f2: "files s2 OUTPUT_FILE = files s OUTPUT_FILE"
        using tool by (simp add: s2_def s1_def)
      have f4: "files s4 OUTPUT_FILE = files s OUTPUT_FILE"
        using f2 by (simp add: s4_def s3_def cp_frame OUTPUT_FILE_def)
      show ?thesis
      proof (cases "status s2 \<noteq> 0")
        case True
        have "batch_loop tools batch_num s
            = Exit (batch_num,
                    (echo (''Error processing batch '' @ string_of_nat batch_num) s2)
                      \<lparr>status := 1\<rparr>)"
          using le nz True
          by (subst batch_loop.simps) (simp add: Let_def s2_def s1_def)
        then show ?thesis
          using f2 by (simp add: loop_state_def)
      next
        case ok: False
        have step: "batch_loop tools batch_num s = batch_loop tools (batch_num + 1) s4"
          using le nz ok
          by (subst batch_loop.simps) (simp add: Let_def s4_def s3_def s2_def s1_def)
        have "files (loop_state (batch_loop tools (batch_num + 1) s4)) OUTPUT_FILE
            = files s4 OUTPUT_FILE"
          using le nz ok tool
          by (intro "1.IH" [where xb = s2 and xc = s3]) (simp_all add: s1_def s2_def s3_def s4_def)
        with step f4 show ?thesis by simp
      qed
    qed
  qed
qed

lemma final_loop:
  "final (process_all_remaining tools s)
     = (case batch_loop tools 1 s of
          Exit (n, s') \<Rightarrow> s'
        | Continue (n, s') \<Rightarrow>
            echo_lines
               [''Processing complete!'',
                ''Processed '' @ string_of_nat (MAX_BATCHES * BATCH_SIZE) @ '' counties in ''
                  @ string_of_nat (n - 1) @ '' batches''] s')"
  by (simp add: process_all_remaining_def final_def split: flow.splits prod.splits)

lemma process_all_remaining_frame:
  assumes "\<forall>fs. snd (tools batch_command fs) OUTPUT_FILE = fs OUTPUT_FILE"
  shows "files (final (process_all_remaining tools s)) OUTPUT_FILE = files s OUTPUT_FILE"
  using assms batch_loop_frame [of tools 1 s]
  by (simp add: final_loop loop_state_def split: flow.splits prod.splits)

text \<open>
  Claim C8, as amended. The batch script for the remaining counties does not recompute
  the county scores wholesale. It counts the reference counties that have no feature in
  the existing output file; when none is missing it ends, with exit status 0, leaving
  every file as it was and running no tool. It never rewrites the output file itself:
  only the batch tool, run on the file as it stands, can change it.
\<close>

theorem batches_keep_previous_output:
  "(get_remaining_count (files s) = Some 0 \<longrightarrow>
      files (final (process_all_remaining tools s)) = files s
    \<and> trace (final (process_all_remaining tools s)) = trace s
    \<and> exit_status (process_all_remaining tools s) = 0)
   \<and> ((\<forall>fs. snd (tools batch_command fs) OUTPUT_FILE = fs OUTPUT_FILE) \<longrightarrow>
      files (final (process_all_remaining tools s)) OUTPUT_FILE = files s OUTPUT_FILE)"
proof (intro conjI impI)
  assume z: "get_remaining_count (files s) = Some 0"
  show "files (final (process_all_remaining tools s)) = files s"
    by (simp add: process_all_remaining_done [OF z] final_def)
  show "trace (final (process_all_remaining tools s)) = trace s"
    by (simp add: process_all_remaining_done [OF z] final_def)
  show "exit_status (process_all_remaining tools s) = 0"
    by (simp add: process_all_remaining_done [OF z] exit_status_def)
next
  assume "\<forall>fs. snd (tools batch_command fs) OUTPUT_FILE = fs OUTPUT_FILE"
  then show "files (final (process_all_remaining tools s)) OUTPUT_FILE = files s OUTPUT_FILE"
    by (rule process_all_remaining_frame)
qed

lemma remaining_none:
  "get_remaining_count (batch_files [[(''GEOID'', JString ''01001''), (k, v)]]) = Some 0"
  by (simp add: get_remaining_count_def batch_files_def shapefile_path_def OUTPUT_FILE_def
      TILE_SCORES_def feature_properties_def remaining_fips_def map_filter_def
      square_county_def)

lemma remaining_one:
  "get_remaining_count (batch_files []) = Some 1"
  by (simp add: get_remaining_count_def batch_files_def shapefile_path_def OUTPUT_FILE_def
      TILE_SCORES_def feature_properties_def remaining_fips_def map_filter_def
      square_county_def)

text \<open>
  Claim C8 as stated fails on two runs with the same tile scores and shapefile and
  different previous output files, each with a feature for every county: each run
  leaves the previous scores in the output file.
\<close>

theorem previous_scores_carried_over_counterexample:
  "files (initial (batch_files [[(''GEOID'', JString ''01001''),
                                  (''obsolescence_score'', JNumber (1 / 10))]]))
      (TILE_SCORES ''south'')
     = files (initial (batch_files [[(''GEOID'', JString ''01001''),
                                      (''obsolescence_score'', JNumber (9 / 10))]]))
      (TILE_SCORES ''south'')
   \<and> files (final (process_all_remaining (sample_tools settings_yaml sample_conventions 0)
        (initial (batch_files [[(''GEOID'', JString ''01001''),
                                (''obsolescence_score'', JNumber (1 / 10))]]))))
      OUTPUT_FILE
     = Some (Feature_collection [[(''GEOID'', JString ''01001''),
                                  (''obsolescence_score'', JNumber (1 / 10))]])
   \<and> files (final (process_all_remaining (sample_tools settings_yaml sample_conventions 0)
        (initial (batch_files [[(''GEOID'', JString ''01001''),
                                (''obsolescence_score'', JNumber (9 / 10))]]))))
      OUTPUT_FILE
     = Some (Feature_collection [[(''GEOID'', JString ''01001''),
                                  (''obsolescence_score'', JNumber (9 / 10))]])
   \<and> trace (final (process_all_remaining (sample_tools settings_yaml sample_conventions 0)
        (initial (batch_files [[(''GEOID'', JString ''01001''),
                                (''obsolescence_score'', JNumber (9 / 10))]]))))
     = []"
proof -
  have f: "files (initial fs) = fs" "trace (initial fs) = []" for fs
    by (simp_all add: initial_def)
  have o: "batch_files p OUTPUT_FILE = Some (Feature_collection p)" for p
    by (simp add: batch_files_def)
  have t: "batch_files [[(''GEOID'', JString ''01001''),
                           (''obsolescence_score'', JNumber (1 / 10))]] (TILE_SCORES ''south'')
      = batch_files [[(''GEOID'', JString ''01001''),
                      (''obsolescence_score'', JNumber (9 / 10))]] (TILE_SCORES ''south'')"
    by (simp add: batch_files_def OUTPUT_FILE_def TILE_SCORES_def)
  have z: "get_remaining_count (files (initial (batch_files
              [[(''GEOID'', JString ''01001''), (''obsolescence_score'', JNumber x)]]))) = Some 0" for x
    by (simp add: f remaining_none)
  have keep: "files (final (process_all_remaining tools (initial (batch_files
              [[(''GEOID'', JString ''01001''), (''obsolescence_score'', JNumber x)]]))))
        = batch_files [[(''GEOID'', JString ''01001''), (''obsolescence_score'', JNumber x)]]"
    and quiet: "trace (final (process_all_remaining tools (initial (batch_files
              [[(''GEOID'', JString ''01001''), (''obsolescence_score'', JNumber x)]])))) = []"
    for tools x
    by (simp_all add: process_all_remaining_done [OF z] final_def f)
  show ?thesis
    unfolding keep quiet f o by (simp add: t)
qed

theorem batches_keep_previous_output_witness:
  "files (final (process_all_remaining (sample_tools settings_yaml sample_conventions 0)
      (initial (batch_files mock_features))))
     = batch_files mock_features
   \<and> exit_status (process_all_remaining (sample_tools settings_yaml sample_conventions 0)
      (initial (batch_files mock_features))) = 0
   \<and> files (final (process_all_remaining failing_tools (initial (batch_files [])))) OUTPUT_FILE
     = Some (Feature_collection [])
   \<and> exit_status (process_all_remaining failing_tools (initial (batch_files []))) = 1"
proof -
  let ?T = "sample_tools settings_yaml sample_conventions 0"
  have f: "files (initial fs) = fs" for fs
    by (simp add: initial_def)
  have z: "get_remaining_count (files (initial (batch_files mock_features))) = Some 0"
    by (simp add: f get_remaining_count_def batch_files_def shapefile_path_def OUTPUT_FILE_def
      TILE_SCORES_def feature_properties_def remaining_fips_def map_filter_def
      square_county_def mock_features_def)
  have fr: "\<forall>fs. snd (failing_tools batch_command fs) OUTPUT_FILE = fs OUTPUT_FILE"
    by (simp add: failing_tools_def)
  note a = batches_keep_previous_output [of "initial (batch_files mock_features)" ?T]
  note b = batches_keep_previous_output [of "initial (batch_files [])" failing_tools]
  from a z have a1: "files (final (process_all_remaining ?T (initial (batch_files mock_features))))
      = batch_files mock_features"
    by (simp add: f)
  from a z have a2: "exit_status (process_all_remaining ?T (initial (batch_files mock_features))) = 0"
    by simp
  from b fr have "files (final (process_all_remaining failing_tools (initial (batch_files []))))
        OUTPUT_FILE = files (initial (batch_files [])) OUTPUT_FILE"
    by blast
  then have b1: "files (final (process_all_remaining failing_tools (initial (batch_files []))))
        OUTPUT_FILE = Some (Feature_collection [])"
    by (simp add: f batch_files_def)
  have b2: "exit_status (process_all_remaining failing_tools (initial (batch_files []))) = 1"
    apply (simp add: process_all_remaining_def exit_status_def)
    apply (subst batch_loop.simps)
    apply (simp add: f remaining_one MAX_BATCHES_def failing_tools_def Let_def)
    done
  from a1 a2 b1 b2 show ?thesis by blast
qed

end
